theory Spec2Isabelle
  imports Main "HOL-Library.Word" "HOL-Library.Signed_Division"
begin

section \<open>Go values\<close>

text \<open>
  The Go types \<open>int64\<close>, \<open>uint64\<close> and \<open>int\<close> (64 bits wide on the platforms the
  indexer is built for) are 64-bit words; a signed reading is \<open>sint\<close>. A
  \<open>time.Duration\<close> is a signed 64-bit count of nanoseconds.
\<close>

type_synonym int64 = "64 word"
type_synonym uint64 = "64 word"
type_synonym Duration = "64 word"
type_synonym hash = "8 word list"
type_synonym nodeid = "8 word list"
type_synonym address = "8 word list"

text \<open>
  Errors as values. \<open>New\<close> and \<open>Wrap\<close> are \<open>errors.New\<close> and \<open>errors.Wrap\<close> of
  github.com/pkg/errors; the two \<open>fmt.Errorf\<close> calls of the input updater have a
  constructor each, carrying the formatted arguments; \<open>Panic\<close> is a run-time panic, which
  unwinds every caller here (no function of the source recovers).
\<close>

datatype error =
    New string
  | Wrap error string
  | UnableToFetchTransactions "string list"
  | UnsupportedType string string
  | Panic string

text \<open>The operator \<open>/\<close> on \<open>int64\<close> with a non-zero divisor: the quotient truncated
  towards zero, wrapped to 64 bits.\<close>

definition go_quo :: "int64 \<Rightarrow> int64 \<Rightarrow> int64" where
  "go_quo a b = word_of_int (sint a sdiv sint b)"

definition Second :: Duration where
  "Second = 1000000000"

text \<open>The operator \<open>%\<close> on \<open>int64\<close> with a non-zero divisor: the remainder of that
  division, with the sign of the dividend.\<close>

definition go_rem :: "int64 \<Rightarrow> int64 \<Rightarrow> int64" where
  "go_rem a b = word_of_int (sint a smod sint b)"

text \<open>
  A \<open>time.Time\<close>, as package \<open>time\<close> stores it, read through its accessors: \<open>sec\<close> is
  \<open>t.sec()\<close>, the seconds since January 1 of year 1 in an \<open>int64\<close>, and \<open>nsec\<close> is the
  30-bit nanosecond field of \<open>wall\<close> that \<open>t.nsec()\<close> returns. The monotonic reading and
  the location, which nothing here reads, are left out. \<open>unixToInternal\<close> is the
  constant of package \<open>time\<close>: the seconds from year 1 to 1970.
\<close>

record Time =
  sec :: int64
  nsec :: "30 word"

definition unixToInternal :: int64 where
  "unixToInternal = 62135596800"

text \<open>\<open>time.Unix(s, 0)\<close>: the sum wraps in 64 bits.\<close>

definition time_Unix :: "int64 \<Rightarrow> Time" where
  "time_Unix s = \<lparr> sec = s + unixToInternal, nsec = 0 \<rparr>"

text \<open>\<open>t.Unix()\<close>.\<close>

definition Unix :: "Time \<Rightarrow> int64" where
  "Unix t = sec t - unixToInternal"

text \<open>\<open>t.addSec(d)\<close> for a time without monotonic reading: the sum saturates instead of
  wrapping.\<close>

definition addSec :: "Time \<Rightarrow> int64 \<Rightarrow> Time" where
  "addSec t d =
     (let sum = sec t + d
      in if (sint (sec t) < sint sum) = (0 < sint d) then t\<lparr>sec := sum\<rparr>
         else if 0 < sint d then t\<lparr>sec := 9223372036854775807\<rparr>
         else t\<lparr>sec := - 9223372036854775807\<rparr>)"

text \<open>\<open>t.Add(d)\<close> for a time without monotonic reading, which is what \<open>time.Unix\<close>
  returns: the nanoseconds are added in \<open>int32\<close>, a carry or a borrow goes to the
  seconds.\<close>

definition Add :: "Time \<Rightarrow> Duration \<Rightarrow> Time" where
  "Add t d =
     (let dsec = go_quo d 1000000000;
          n = (ucast (nsec t) :: 32 word) + ucast (go_rem d 1000000000)
      in if 1000000000 \<le> sint n
         then addSec (t\<lparr>nsec := ucast (n - 1000000000)\<rparr>) (dsec + 1)
         else if sint n < 0
         then addSec (t\<lparr>nsec := ucast (n + 1000000000)\<rparr>) (dsec - 1)
         else addSec (t\<lparr>nsec := ucast n\<rparr>) dsec)"

text \<open>\<open>t.Before(u)\<close>, and the instant a time denotes, in nanoseconds since the Unix epoch
  as an unbounded integer.\<close>

definition Before :: "Time \<Rightarrow> Time \<Rightarrow> bool" where
  "Before t u \<longleftrightarrow> sint (sec t) < sint (sec u) \<or> (sec t = sec u \<and> uint (nsec t) < uint (nsec u))"

definition instant :: "Time \<Rightarrow> int" where
  "instant t = (sint (sec t) - 62135596800) * 1000000000 + uint (nsec t)"

section \<open>The mirroring cronjob\<close>

subsection \<open>Data\<close>

text \<open>
  Modelled from the spec: the declarations of \<open>database.PChainTxType\<close> and
  \<open>database.PChainVotingData\<close> are missing. The spec gives a staking-transaction record
  an identifier, a node identifier, start and end time, weight, fee percentage, source
  address, block height and a type tag that is validator-add, delegator-add or another
  one. The record has these fields under the names the cronjob reads them by, with the
  types its conversions show. A pointer field is an \<open>option\<close>, \<open>None\<close> for \<open>nil\<close>.
\<close>

datatype PChainTxType =
    PChainAddValidatorTx
  | PChainAddDelegatorTx
  | PChainOtherTx string

record PChainVotingData =
  TxID :: "string option"
  Type :: PChainTxType
  NodeID :: string
  StartTime :: "Time option"
  EndTime :: "Time option"
  BlockHeight :: uint64
  Weight :: uint64
  Address :: string
  FeePercentage :: "32 word"

text \<open>\<open>mirroring.IIPChainStakeMirrorVerifierPChainStake\<close>, the stake claim of the
  verifier contract.\<close>

record PChainStake =
  stake_EpochId :: int
  stake_BlockNumber :: uint64
  stake_TransactionHash :: hash
  stake_TransactionType :: "8 word"
  stake_NodeId :: nodeid
  stake_StartTime :: uint64
  stake_EndTime :: uint64
  stake_Weight :: uint64
  stake_SourceAddress :: address
  stake_FeePercentage :: uint64

text \<open>The configuration fields \<open>NewMirrorCronjob\<close> reads. Of them \<open>config.go\<close> declares
  \<open>EpochPeriod\<close> and \<open>MirroringContract\<close>; the others are taken as the cronjob uses them.\<close>

record MirrorConfig =
  EpochPeriod :: Duration
  EpochTime :: Time
  PrivateKey :: string
  MirroringContract :: address

record ChainConfig =
  EthRPCURL :: string
  ChainID :: int

record Config =
  Mirror :: MirrorConfig
  Chain :: ChainConfig

record ('m, 'o) mirrorCronJob =
  epochPeriodSeconds :: int64
  epochTimeSeconds :: int64
  mirroringContract :: 'm
  txOpts :: 'o

text \<open>
  What lies outside the cronjob: the clock, the staking-transaction table behind \<open>c.db\<close>
  and the state of the verifier contract. The collaborators are the fields of
  \<open>mirror_env\<close>; the ones that read or write the outside take its part and return it.
\<close>

record ('d, 'c) world =
  clock :: Time
  db :: 'd
  chain :: 'c

record ('d, 'c, 't, 'm, 'o) mirror_env =
  ethclient_Dial :: "string \<Rightarrow> error + string"
  mirroring_NewMirroring :: "address \<Rightarrow> string \<Rightarrow> error + 'm"
  TransactOptsFromPrivateKey :: "string \<Rightarrow> int \<Rightarrow> error + 'o"
  ids_FromString :: "string \<Rightarrow> error + hash"
  ids_NodeIDFromString :: "string \<Rightarrow> error + nodeid"
  common_HexToAddress :: "string \<Rightarrow> address"
  merkle_Build :: "hash list \<Rightarrow> bool \<Rightarrow> 't"
  GetProofFromHash :: "'t \<Rightarrow> hash \<Rightarrow> error + hash list"
  GetUnmirroredPChainTxs :: "'d \<Rightarrow> Time \<Rightarrow> Time \<Rightarrow> error + PChainVotingData list"
  MarkTxsAsMirrored :: "'d \<Rightarrow> PChainVotingData list \<Rightarrow> error option \<times> 'd"
  VerifyStake :: "'m \<Rightarrow> 'c \<Rightarrow> 'o \<Rightarrow> PChainStake \<Rightarrow> hash list \<Rightarrow> error option \<times> 'c"

text \<open>The calls a run makes to its collaborators, in order, with what the fallible
  ones returned.\<close>

datatype call =
    CallGetUnmirroredPChainTxs Time Time
  | CallMerkleBuild "hash list"
  | CallGetProofFromHash hash
  | CallVerifyStake PChainStake "hash list" "error option"
  | CallMarkTxsAsMirrored "PChainVotingData list" "error option"

fun isMark :: "call \<Rightarrow> bool" where
  "isMark (CallMarkTxsAsMirrored txs r) = True"
| "isMark _ = False"

fun isVerify :: "call \<Rightarrow> bool" where
  "isVerify (CallVerifyStake s p r) = True"
| "isVerify _ = False"

fun isProof :: "call \<Rightarrow> bool" where
  "isProof (CallGetProofFromHash h) = True"
| "isProof _ = False"

fun isBuild :: "call \<Rightarrow> bool" where
  "isBuild (CallMerkleBuild hs) = True"
| "isBuild _ = False"

subsection \<open>Construction\<close>

definition newMirroringContract ::
  "('d, 'c, 't, 'm, 'o) mirror_env \<Rightarrow> Config \<Rightarrow> error + 'm" where
  "newMirroringContract env cfg =
     (case ethclient_Dial env (EthRPCURL (Chain cfg)) of
        Inl err \<Rightarrow> Inl err
      | Inr eth \<Rightarrow> mirroring_NewMirroring env (MirroringContract (Mirror cfg)) eth)"

definition NewMirrorCronjob ::
  "('d, 'c, 't, 'm, 'o) mirror_env \<Rightarrow> Config \<Rightarrow> error + ('m, 'o) mirrorCronJob" where
  "NewMirrorCronjob env cfg =
     (case newMirroringContract env cfg of
        Inl err \<Rightarrow> Inl err
      | Inr contract \<Rightarrow>
          (case TransactOptsFromPrivateKey env (PrivateKey (Mirror cfg)) (ChainID (Chain cfg)) of
             Inl err \<Rightarrow> Inl err
           | Inr opts \<Rightarrow>
               Inr \<lparr> epochPeriodSeconds = go_quo (EpochPeriod (Mirror cfg)) Second,
                     epochTimeSeconds = Unix (EpochTime (Mirror cfg)),
                     mirroringContract = contract,
                     txOpts = opts \<rparr>))"

definition Name :: "('m, 'o) mirrorCronJob \<Rightarrow> string" where
  "Name c = ''mirror''"

definition Enabled :: "('m, 'o) mirrorCronJob \<Rightarrow> bool" where
  "Enabled c = False"

definition TimeoutSeconds :: "('m, 'o) mirrorCronJob \<Rightarrow> int64" where
  "TimeoutSeconds c = epochPeriodSeconds c"

subsection \<open>The epoch clock\<close>

text \<open>\<open>getPreviousEpoch\<close>, with \<open>time.Now()\<close> as the argument \<open>now\<close>. Go panics on an
  integer division by zero.\<close>

definition getPreviousEpoch :: "('m, 'o) mirrorCronJob \<Rightarrow> Time \<Rightarrow> error + int64" where
  "getPreviousEpoch c now =
     (if epochPeriodSeconds c = 0
      then Inl (Panic ''runtime error: integer divide by zero'')
      else (let currEpoch = go_quo (Unix now - epochTimeSeconds c) (epochPeriodSeconds c)
            in Inr (currEpoch - 1)))"

text \<open>The two timestamps \<open>getUnmirroredTxs\<close> computes for an epoch, and the selection
  it asks the store for.\<close>

definition epochWindow :: "('m, 'o) mirrorCronJob \<Rightarrow> int64 \<Rightarrow> Time \<times> Time" where
  "epochWindow c epoch =
     (let startTimestamp = time_Unix (epochTimeSeconds c + epoch * epochPeriodSeconds c);
          endTimestamp = Add startTimestamp (epochPeriodSeconds c * Second)
      in (startTimestamp, endTimestamp))"

definition getUnmirroredTxs ::
  "('d, 'c, 't, 'm, 'o) mirror_env \<Rightarrow> ('m, 'o) mirrorCronJob \<Rightarrow> ('d, 'c) world \<Rightarrow> int64
     \<Rightarrow> (error + PChainVotingData list) \<times> call list" where
  "getUnmirroredTxs env c w epoch =
     (case epochWindow c epoch of
        (startTimestamp, endTimestamp) \<Rightarrow>
          (GetUnmirroredPChainTxs env (db w) startTimestamp endTimestamp,
           [CallGetUnmirroredPChainTxs startTimestamp endTimestamp]))"

subsection \<open>The Merkle commitment and the stake claim\<close>

fun buildTree_loop ::
  "('d, 'c, 't, 'm, 'o) mirror_env \<Rightarrow> PChainVotingData list \<Rightarrow> hash list \<Rightarrow> error + hash list" where
  "buildTree_loop env [] hashes = Inr hashes"
| "buildTree_loop env (tx # txs) hashes =
     (case TxID tx of
        None \<Rightarrow> Inl (New ''tx.TxID is nil'')
      | Some s \<Rightarrow>
          (case ids_FromString env s of
             Inl err \<Rightarrow> Inl (Wrap err ''ids.FromString'')
           | Inr txHash \<Rightarrow> buildTree_loop env txs (hashes @ [txHash])))"

definition buildTree ::
  "('d, 'c, 't, 'm, 'o) mirror_env \<Rightarrow> PChainVotingData list \<Rightarrow> (error + 't) \<times> call list" where
  "buildTree env txs =
     (case buildTree_loop env txs [] of
        Inl err \<Rightarrow> (Inl err, [])
      | Inr hashes \<Rightarrow> (Inr (merkle_Build env hashes False), [CallMerkleBuild hashes]))"

fun getTxType :: "PChainTxType \<Rightarrow> error + 8 word" where
  "getTxType PChainAddValidatorTx = Inr 0"
| "getTxType PChainAddDelegatorTx = Inr 1"
| "getTxType _ = Inl (New ''invalid tx type'')"

definition toStakeData ::
  "('d, 'c, 't, 'm, 'o) mirror_env \<Rightarrow> PChainVotingData \<Rightarrow> int \<Rightarrow> hash \<Rightarrow> error + PChainStake" where
  "toStakeData env tx epochID txHash =
     (case getTxType (Type tx) of
        Inl err \<Rightarrow> Inl err
      | Inr txType \<Rightarrow>
          (case ids_NodeIDFromString env (NodeID tx) of
             Inl err \<Rightarrow> Inl (Wrap err ''ids.NodeIDFromString'')
           | Inr nodeID \<Rightarrow>
               (case StartTime tx of
                  None \<Rightarrow> Inl (New ''tx.StartTime is nil'')
                | Some st \<Rightarrow>
                    (case EndTime tx of
                       None \<Rightarrow> Inl (New ''tx.EndTime is nil'')
                     | Some et \<Rightarrow>
                         Inr \<lparr> stake_EpochId = epochID,
                               stake_BlockNumber = BlockHeight tx,
                               stake_TransactionHash = txHash,
                               stake_TransactionType = txType,
                               stake_NodeId = nodeID,
                               stake_StartTime = Unix st,
                               stake_EndTime = Unix et,
                               stake_Weight = Weight tx,
                               stake_SourceAddress = common_HexToAddress env (Address tx),
                               stake_FeePercentage = ucast (FeePercentage tx) \<rparr>))))"

definition getMerkleProof ::
  "('d, 'c, 't, 'm, 'o) mirror_env \<Rightarrow> 't \<Rightarrow> hash \<Rightarrow> (error + hash list) \<times> call list" where
  "getMerkleProof env merkleTree txHash =
     (case GetProofFromHash env merkleTree txHash of
        Inl err \<Rightarrow> (Inl (Wrap err ''merkleTree.GetProof''), [CallGetProofFromHash txHash])
      | Inr proof \<Rightarrow> (Inr proof, [CallGetProofFromHash txHash]))"

subsection \<open>Submission\<close>

record 't mirrorTxInput =
  in_epochID :: int
  in_merkleTree :: 't
  in_tx :: PChainVotingData

text \<open>\<open>mirrorTx\<close> dereferences \<open>in.tx.TxID\<close> unchecked: a nil pointer there is a panic.\<close>

definition mirrorTx ::
  "('d, 'c, 't, 'm, 'o) mirror_env \<Rightarrow> ('m, 'o) mirrorCronJob \<Rightarrow> ('d, 'c) world \<Rightarrow> 't mirrorTxInput
     \<Rightarrow> error option \<times> ('d, 'c) world \<times> call list" where
  "mirrorTx env c w inp =
     (case TxID (in_tx inp) of
        None \<Rightarrow> (Some (Panic ''runtime error: invalid memory address or nil pointer dereference''), w, [])
      | Some s \<Rightarrow>
          (case ids_FromString env s of
             Inl err \<Rightarrow> (Some (Wrap err ''ids.FromString''), w, [])
           | Inr txHash \<Rightarrow>
               (case toStakeData env (in_tx inp) (in_epochID inp) txHash of
                  Inl err \<Rightarrow> (Some err, w, [])
                | Inr stakeData \<Rightarrow>
                    (case getMerkleProof env (in_merkleTree inp) txHash of
                       (Inl err, cs) \<Rightarrow> (Some err, w, cs)
                     | (Inr merkleProof, cs) \<Rightarrow>
                         (case VerifyStake env (mirroringContract c) (chain w) (txOpts c)
                                 stakeData merkleProof of
                            (Some err, ch) \<Rightarrow>
                              (Some (Wrap err ''mirroringContract.VerifyStake''),
                               w\<lparr>chain := ch\<rparr>,
                               cs @ [CallVerifyStake stakeData merkleProof (Some err)])
                          | (None, ch) \<Rightarrow>
                              (None, w\<lparr>chain := ch\<rparr>,
                               cs @ [CallVerifyStake stakeData merkleProof None]))))))"

fun mirrorTxs_loop ::
  "('d, 'c, 't, 'm, 'o) mirror_env \<Rightarrow> ('m, 'o) mirrorCronJob \<Rightarrow> ('d, 'c) world \<Rightarrow> 't \<Rightarrow> int64
     \<Rightarrow> PChainVotingData list \<Rightarrow> error option \<times> ('d, 'c) world \<times> call list" where
  "mirrorTxs_loop env c w tree epochID [] = (None, w, [])"
| "mirrorTxs_loop env c w tree epochID (t # txs) =
     (case mirrorTx env c w \<lparr> in_epochID = sint epochID, in_merkleTree = tree, in_tx = t \<rparr> of
        (Some err, w1, cs) \<Rightarrow> (Some err, w1, cs)
      | (None, w1, cs) \<Rightarrow>
          (case mirrorTxs_loop env c w1 tree epochID txs of
             (r, w2, cs2) \<Rightarrow> (r, w2, cs @ cs2)))"

definition mirrorTxs ::
  "('d, 'c, 't, 'm, 'o) mirror_env \<Rightarrow> ('m, 'o) mirrorCronJob \<Rightarrow> ('d, 'c) world
     \<Rightarrow> PChainVotingData list \<Rightarrow> int64 \<Rightarrow> error option \<times> ('d, 'c) world \<times> call list" where
  "mirrorTxs env c w txs epochID =
     (case buildTree env txs of
        (Inl err, cs) \<Rightarrow> (Some err, w, cs)
      | (Inr tree, cs) \<Rightarrow>
          (case mirrorTxs_loop env c w tree epochID txs of
             (r, w1, cs1) \<Rightarrow> (r, w1, cs @ cs1)))"

subsection \<open>One run\<close>

definition Call ::
  "('d, 'c, 't, 'm, 'o) mirror_env \<Rightarrow> ('m, 'o) mirrorCronJob \<Rightarrow> ('d, 'c) world
     \<Rightarrow> error option \<times> ('d, 'c) world \<times> call list" where
  "Call env c w =
     (case getPreviousEpoch c (clock w) of
        Inl p \<Rightarrow> (Some p, w, [])
      | Inr epoch \<Rightarrow>
          if sint epoch < 0 then (Some (New ''invalid epoch''), w, [])
          else
            (case getUnmirroredTxs env c w epoch of
               (Inl err, cs) \<Rightarrow> (Some err, w, cs)
             | (Inr txs, cs) \<Rightarrow>
                 if length txs = 0 then (None, w, cs)
                 else
                   (case mirrorTxs env c w txs epoch of
                      (Some err, w1, cs1) \<Rightarrow> (Some err, w1, cs @ cs1)
                    | (None, w1, cs1) \<Rightarrow>
                        (case MarkTxsAsMirrored env (db w1) txs of
                           (Some err, d) \<Rightarrow>
                             (Some err, w1\<lparr>db := d\<rparr>,
                              cs @ cs1 @ [CallMarkTxsAsMirrored txs (Some err)])
                         | (None, d) \<Rightarrow>
                             (None, w1\<lparr>db := d\<rparr>,
                              cs @ cs1 @ [CallMarkTxsAsMirrored txs None])))))"

section \<open>The X-chain input updater\<close>

subsection \<open>Data\<close>

text \<open>
  \<open>notUpdated\<close> is a Go map from a transaction id to the inputs that wait for its outputs.
  Go leaves the order in which a map is ranged over unspecified; the map is a list of
  entries in the order the run-time picks, and every statement below holds for every
  list, hence for every order. \<open>utils.Keys\<close> lists the keys.
\<close>

type_synonym 'p notUpdated = "(string \<times> 'p list) list"

definition Keys :: "('k \<times> 'v) list \<Rightarrow> 'k list" where
  "Keys m = map fst m"

text \<open>\<open>indexer.Container\<close>, and the transaction \<open>x.Parser.ParseGenesisTx\<close> returns: its
  \<open>Unsigned\<close> field is a \<open>*txs.BaseTx\<close>, a \<open>*txs.ImportTx\<close> (of which only the embedded
  \<open>BaseTx\<close> is read) or a value of another type, kept by the name \<open>%T\<close> prints.\<close>

record Container =
  container_ID :: hash
  container_Bytes :: "8 word list"

datatype 'b UnsignedTx =
    BaseTx 'b
  | ImportTx 'b
  | OtherTx string

record 'b Tx =
  Unsigned :: "'b UnsignedTx"

text \<open>
  The input records are reached through pointers \<open>'p\<close> and changed in place; \<open>'h\<close> is the
  store they live in, together with the output cache of \<open>shared.BaseInputUpdater\<close>. The
  helpers of package \<open>shared\<close>, the table behind \<open>iu.db\<close> and the indexer client are the
  fields of \<open>updater_env\<close>. \<open>UpdateInputsWithOutputs\<close> changes the map it is given in
  place: it returns the map as it left it.
\<close>

record ('h, 'p, 'x, 'o, 'b) updater_env =
  UpdateInputsFromCache :: "'h \<Rightarrow> 'p list \<Rightarrow> 'h \<times> 'p notUpdated"
  FetchXChainTxOutputs :: "string list \<Rightarrow> error + 'x list"
  TxOutput_of :: "'x \<Rightarrow> 'o"
  UpdateInputsWithOutputs :: "'h \<Rightarrow> 'p notUpdated \<Rightarrow> 'o list \<Rightarrow> error option \<times> 'h \<times> 'p notUpdated"
  FetchContainerFromIndexer :: "string \<Rightarrow> error + Container option"
  ParseGenesisTx :: "8 word list \<Rightarrow> error + 'b Tx"
  TxOutputsFromBaseTx :: "string \<Rightarrow> 'b \<Rightarrow> error + 'o list"
  ID_String :: "hash \<Rightarrow> string"

datatype tier_call =
    CallUpdateInputsFromCache
  | CallFetchXChainTxOutputs "string list"
  | CallFetchContainerFromIndexer string

subsection \<open>The three tiers\<close>

text \<open>In \<open>updateFromDB\<close> the loop over the fetched rows takes the embedded \<open>TxOutput\<close> of
  each row, in order.\<close>

definition updateFromDB ::
  "('h, 'p, 'x, 'o, 'b) updater_env \<Rightarrow> 'h \<Rightarrow> 'p notUpdated
     \<Rightarrow> error option \<times> 'h \<times> 'p notUpdated \<times> tier_call list" where
  "updateFromDB env h notUpdated =
     (case FetchXChainTxOutputs env (Keys notUpdated) of
        Inl err \<Rightarrow> (Some err, h, notUpdated, [CallFetchXChainTxOutputs (Keys notUpdated)])
      | Inr outs \<Rightarrow>
          (let baseOuts = map (TxOutput_of env) outs
           in case UpdateInputsWithOutputs env h notUpdated baseOuts of
                (r, h1, notUpdated1) \<Rightarrow>
                  (r, h1, notUpdated1, [CallFetchXChainTxOutputs (Keys notUpdated)])))"

fun updateFromChain_loop ::
  "('h, 'p, 'x, 'o, 'b) updater_env \<Rightarrow> string list \<Rightarrow> 'o list
     \<Rightarrow> (error + 'o list) \<times> tier_call list" where
  "updateFromChain_loop env [] fetchedOuts = (Inr fetchedOuts, [])"
| "updateFromChain_loop env (txId # rest) fetchedOuts =
     (case FetchContainerFromIndexer env txId of
        Inl err \<Rightarrow> (Inl err, [CallFetchContainerFromIndexer txId])
      | Inr None \<Rightarrow>
          (case updateFromChain_loop env rest fetchedOuts of
             (r, cs) \<Rightarrow> (r, CallFetchContainerFromIndexer txId # cs))
      | Inr (Some container) \<Rightarrow>
          (case ParseGenesisTx env (container_Bytes container) of
             Inl err \<Rightarrow> (Inl err, [CallFetchContainerFromIndexer txId])
           | Inr tx \<Rightarrow>
               (case (case Unsigned tx of
                        BaseTx unsignedTx \<Rightarrow> Inr (TxOutputsFromBaseTx env txId unsignedTx)
                      | ImportTx unsignedTx \<Rightarrow> Inr (TxOutputsFromBaseTx env txId unsignedTx)
                      | OtherTx T \<Rightarrow>
                          Inl (UnsupportedType (ID_String env (container_ID container)) T)) of
                  Inl err \<Rightarrow> (Inl err, [CallFetchContainerFromIndexer txId])
                | Inr (Inl err) \<Rightarrow> (Inl err, [CallFetchContainerFromIndexer txId])
                | Inr (Inr outs) \<Rightarrow>
                    (case updateFromChain_loop env rest (fetchedOuts @ outs) of
                       (r, cs) \<Rightarrow> (r, CallFetchContainerFromIndexer txId # cs)))))"

definition updateFromChain ::
  "('h, 'p, 'x, 'o, 'b) updater_env \<Rightarrow> 'h \<Rightarrow> 'p notUpdated
     \<Rightarrow> error option \<times> 'h \<times> 'p notUpdated \<times> tier_call list" where
  "updateFromChain env h notUpdated =
     (case updateFromChain_loop env (Keys notUpdated) [] of
        (Inl err, cs) \<Rightarrow> (Some err, h, notUpdated, cs)
      | (Inr fetchedOuts, cs) \<Rightarrow>
          (case UpdateInputsWithOutputs env h notUpdated fetchedOuts of
             (r, h1, notUpdated1) \<Rightarrow> (r, h1, notUpdated1, cs)))"

definition UpdateInputs ::
  "('h, 'p, 'x, 'o, 'b) updater_env \<Rightarrow> 'h \<Rightarrow> 'p list \<Rightarrow> error option \<times> 'h \<times> tier_call list" where
  "UpdateInputs env h inputs =
     (case UpdateInputsFromCache env h inputs of
        (h0, notUpdated) \<Rightarrow>
          (case updateFromDB env h0 notUpdated of
             (Some err, h1, notUpdated1, cs1) \<Rightarrow> (Some err, h1, CallUpdateInputsFromCache # cs1)
           | (None, h1, notUpdated1, cs1) \<Rightarrow>
               (case updateFromChain env h1 notUpdated1 of
                  (Some err, h2, notUpdated2, cs2) \<Rightarrow>
                    (Some err, h2, CallUpdateInputsFromCache # cs1 @ cs2)
                | (None, h2, notUpdated2, cs2) \<Rightarrow>
                    if length notUpdated2 > 0
                    then (Some (UnableToFetchTransactions (Keys notUpdated2)), h2,
                          CallUpdateInputsFromCache # cs1 @ cs2)
                    else (None, h2, CallUpdateInputsFromCache # cs1 @ cs2))))"

text \<open>
  Modelled from the spec: \<open>shared.UpdateInputsWithOutputs\<close> and
  \<open>shared.TxOutputsFromBaseTx\<close> are not at hand. The spec has the outputs of a tier
  "matched back to the waiting inputs" and the unresolved set shrunk by what was found:
  an identifier leaves the map only when an output of that transaction is supplied, and
  the outputs extracted for a transaction id carry that id (\<open>out_id\<close> reads it).
\<close>

definition resolves_only_supplied ::
  "('h, 'p, 'x, 'o, 'b) updater_env \<Rightarrow> ('o \<Rightarrow> string) \<Rightarrow> bool" where
  "resolves_only_supplied env out_id \<longleftrightarrow>
     (\<forall>h notUpdated outs k.
         k \<in> set (Keys notUpdated) \<and> k \<notin> out_id ` set outs
         \<longrightarrow> k \<in> set (Keys (snd (snd (UpdateInputsWithOutputs env h notUpdated outs)))))
     \<and> (\<forall>txId unsignedTx outs out.
           TxOutputsFromBaseTx env txId unsignedTx = Inr outs \<and> out \<in> set outs
           \<longrightarrow> out_id out = txId)"

section \<open>Concrete collaborators\<close>

text \<open>
  One instance of each environment, small enough to run the model on. The store is a
  list of rows (timestamp, mirrored flag, record); it selects the rows of a window whose
  flag is unset and marks rows by identifier. The contract rejects a stake of weight 0 and
  records every other one. A tree is the list of its leaves.
\<close>

type_synonym demo_db = "(Time \<times> bool \<times> PChainVotingData) list"

definition demo_select :: "demo_db \<Rightarrow> Time \<Rightarrow> Time \<Rightarrow> error + PChainVotingData list" where
  "demo_select d s e =
     Inr (map (\<lambda>r. snd (snd r))
            (filter (\<lambda>r. \<not> Before (fst r) s \<and> Before (fst r) e \<and> \<not> fst (snd r)) d))"

definition demo_mark :: "demo_db \<Rightarrow> PChainVotingData list \<Rightarrow> error option \<times> demo_db" where
  "demo_mark d txs =
     (None, map (\<lambda>r. if TxID (snd (snd r)) \<in> set (map TxID txs)
                      then (fst r, True, snd (snd r)) else r) d)"

definition demo_FromString :: "string \<Rightarrow> error + hash" where
  "demo_FromString s =
     (if s = [] \<or> CHR ''!'' \<in> set s then Inl (New ''invalid id'')
      else Inr (map (\<lambda>ch. if ch = CHR ''A'' then 1 else if ch = CHR ''B'' then 2 else 3) s))"

definition demo_verify ::
  "unit \<Rightarrow> PChainStake list \<Rightarrow> unit \<Rightarrow> PChainStake \<Rightarrow> hash list \<Rightarrow> error option \<times> PChainStake list" where
  "demo_verify m ch opts stake merkleProof =
     (if stake_Weight stake = 0 then (Some (New ''execution reverted''), ch)
      else (None, ch @ [stake]))"

definition demo_env :: "(demo_db, PChainStake list, hash list, unit, unit) mirror_env" where
  "demo_env =
     \<lparr> ethclient_Dial = (\<lambda>url. Inr url),
       mirroring_NewMirroring = (\<lambda>a eth. Inr ()),
       TransactOptsFromPrivateKey = (\<lambda>key chainID. Inr ()),
       ids_FromString = demo_FromString,
       ids_NodeIDFromString = (\<lambda>s. if s = [] then Inl (New ''invalid node id'') else Inr [7]),
       common_HexToAddress = (\<lambda>s. []),
       merkle_Build = (\<lambda>hashes sorted. hashes),
       GetProofFromHash =
         (\<lambda>t h. if h \<in> set t then Inr (filter (\<lambda>x. x \<noteq> h) t) else Inl (New ''hash not in tree'')),
       GetUnmirroredPChainTxs = demo_select,
       MarkTxsAsMirrored = demo_mark,
       VerifyStake = demo_verify \<rparr>"

definition demo_tx :: "string option \<Rightarrow> PChainTxType \<Rightarrow> uint64 \<Rightarrow> PChainVotingData" where
  "demo_tx i ty wt =
     \<lparr> TxID = i, Type = ty, NodeID = ''NodeID-1'', StartTime = Some (time_Unix 4000),
       EndTime = Some (time_Unix 9000), BlockHeight = 12, Weight = wt, Address = ''0x01'',
       FeePercentage = 10 \<rparr>"

definition demo_job :: "(unit, unit) mirrorCronJob" where
  "demo_job = \<lparr> epochPeriodSeconds = 3600, epochTimeSeconds = 0, mirroringContract = (), txOpts = () \<rparr>"

text \<open>Two rows of the same epoch that the contract accepts.\<close>

definition demo_rows_ok :: demo_db where
  "demo_rows_ok =
     [(time_Unix 4000, False, demo_tx (Some ''A'') PChainAddValidatorTx 5),
      (time_Unix 4200, False, demo_tx (Some ''AB'') PChainAddDelegatorTx 5)]"

text \<open>A job whose anchor, 7301 s, lies after the instant 7300 s.\<close>

definition demo_job_future :: "(unit, unit) mirrorCronJob" where
  "demo_job_future =
     \<lparr> epochPeriodSeconds = 3600, epochTimeSeconds = 7301, mirroringContract = (), txOpts = () \<rparr>"

definition demo_cfg :: "Duration \<Rightarrow> Config" where
  "demo_cfg period =
     \<lparr> Mirror = \<lparr> EpochPeriod = period, EpochTime = time_Unix 0, PrivateKey = ''key'', MirroringContract = [] \<rparr>,
       Chain = \<lparr> EthRPCURL = ''http://localhost:9650/'', ChainID = 14 \<rparr> \<rparr>"

definition demo_world :: "demo_db \<Rightarrow> (demo_db, PChainStake list) world" where
  "demo_world rows = \<lparr> clock = time_Unix 7300, db = rows, chain = [] \<rparr>"

text \<open>Three rows of the epoch \<open>[3600, 7200)\<close>; the contract rejects the second.\<close>

definition demo_rows :: demo_db where
  "demo_rows =
     [(time_Unix 4000, False, demo_tx (Some ''A'') PChainAddValidatorTx 5),
      (time_Unix 4100, False, demo_tx (Some ''B'') PChainAddDelegatorTx 0),
      (time_Unix 4200, False, demo_tx (Some ''AB'') PChainAddValidatorTx 5)]"

text \<open>
  For the input updater: an input is named by the transaction id it refers to, the store
  \<open>'h\<close> lists the ids resolved so far, an output is a pair of its transaction id and an
  address. The cache knows \<open>c\<close>, the table \<open>s\<close>; the indexer has a base transaction
  \<open>b\<close>, an import transaction \<open>i\<close> and an export transaction \<open>x\<close>, and fails on \<open>!\<close>.
\<close>

definition demo_container :: "string \<Rightarrow> error + Container option" where
  "demo_container txId =
     (if txId = ''!'' then Inl (New ''invalid id'')
      else if txId = ''b'' then Inr (Some \<lparr> container_ID = [1], container_Bytes = [1] \<rparr>)
      else if txId = ''i'' then Inr (Some \<lparr> container_ID = [2], container_Bytes = [2] \<rparr>)
      else if txId = ''x'' then Inr (Some \<lparr> container_ID = [3], container_Bytes = [3] \<rparr>)
      else Inr None)"

definition demo_parse :: "8 word list \<Rightarrow> error + string Tx" where
  "demo_parse bytes =
     (if bytes = [1] then Inr \<lparr> Unsigned = BaseTx ''addr-b'' \<rparr>
      else if bytes = [2] then Inr \<lparr> Unsigned = ImportTx ''addr-i'' \<rparr>
      else if bytes = [3] then Inr \<lparr> Unsigned = OtherTx ''*txs.ExportTx'' \<rparr>
      else Inl (New ''cannot parse''))"

definition demo_update ::
  "string list \<Rightarrow> string notUpdated \<Rightarrow> (string \<times> string) list
     \<Rightarrow> error option \<times> string list \<times> string notUpdated" where
  "demo_update h notUpdated outs =
     (None, h @ filter (\<lambda>k. k \<in> set (map fst outs)) (map fst notUpdated),
      filter (\<lambda>e. fst e \<notin> set (map fst outs)) notUpdated)"

definition demo_updater ::
  "(string list, string, string \<times> string, string \<times> string, string) updater_env" where
  "demo_updater =
     \<lparr> UpdateInputsFromCache =
         (\<lambda>h inputs. (h @ filter (\<lambda>k. k = ''c'') inputs,
                       map (\<lambda>k. (k, [k])) (remdups (filter (\<lambda>k. k \<noteq> ''c'') inputs)))),
       FetchXChainTxOutputs = (\<lambda>ks. Inr (map (\<lambda>k. (k, ''addr-s'')) (filter (\<lambda>k. k = ''s'') ks))),
       TxOutput_of = (\<lambda>x. x),
       UpdateInputsWithOutputs = demo_update,
       FetchContainerFromIndexer = demo_container,
       ParseGenesisTx = demo_parse,
       TxOutputsFromBaseTx = (\<lambda>txId a. Inr [(txId, a)]),
       ID_String = (\<lambda>i. if i = [3] then ''id-x'' else ''id'') \<rparr>"

section \<open>Signed 64-bit arithmetic\<close>

lemma sint_word_of_int_64:
  "- (2 ^ 63) \<le> k \<Longrightarrow> k < 2 ^ 63 \<Longrightarrow> sint (word_of_int k :: 64 word) = k"
  by (simp add: signed_of_int signed_take_bit_int_eq_self)

lemma sint_diff_64:
  fixes a b :: "64 word"
  shows "- (2 ^ 63) \<le> sint a - sint b \<Longrightarrow> sint a - sint b < 2 ^ 63 \<Longrightarrow> sint (a - b) = sint a - sint b"
  by (simp add: sint_word_ariths signed_take_bit_int_eq_self)

lemma sint_add_64:
  fixes a b :: "64 word"
  shows "- (2 ^ 63) \<le> sint a + sint b \<Longrightarrow> sint a + sint b < 2 ^ 63 \<Longrightarrow> sint (a + b) = sint a + sint b"
  by (simp add: sint_word_ariths signed_take_bit_int_eq_self)

lemma sint_mult_64:
  fixes a b :: "64 word"
  shows "- (2 ^ 63) \<le> sint a * sint b \<Longrightarrow> sint a * sint b < 2 ^ 63 \<Longrightarrow> sint (a * b) = sint a * sint b"
  by (simp add: sint_word_ariths signed_take_bit_int_eq_self)

lemma sint_range_64:
  fixes a :: "64 word"
  shows "- (2 ^ 63) \<le> sint a" and "sint a < 2 ^ 63"
  using sint_ge [of a] sint_lt [of a] by simp_all

lemma sint_Second: "sint Second = 1000000000"
  by (simp add: Second_def)

lemma int_div_le_self:
  fixes k l :: int
  assumes "0 \<le> k" "0 < l"
  shows "0 \<le> k div l" and "k div l \<le> k"
proof -
  show q: "0 \<le> k div l" using assms by (simp add: pos_imp_zdiv_nonneg_iff)
  have "k div l * 1 \<le> k div l * l"
    using q assms by (intro mult_left_mono) auto
  moreover have "k div l * l \<le> k"
    using div_mult_mod_eq [of k l] pos_mod_sign [of l k] assms by linarith
  ultimately show "k div l \<le> k" by simp
qed

lemma go_quo_pos:
  assumes "0 < sint b"
  shows "sint (go_quo a b) = sint a sdiv sint b"
proof -
  have r: "- (2 ^ 63) \<le> sint a" "sint a < 2 ^ 63" using sint_range_64 [of a] by auto
  have q: "sint a sdiv sint b = sgn (sint a) * (\<bar>sint a\<bar> div sint b)"
    using assms by (simp add: signed_divide_int_def)
  have b: "0 \<le> \<bar>sint a\<bar> div sint b" "\<bar>sint a\<bar> div sint b \<le> \<bar>sint a\<bar>"
    using int_div_le_self [of "\<bar>sint a\<bar>" "sint b"] assms by auto
  have "- (2 ^ 63) \<le> sint a sdiv sint b \<and> sint a sdiv sint b < 2 ^ 63"
  proof (cases "0 \<le> sint a")
    case True
    then show ?thesis using r b q by (auto simp: sgn_if)
  next
    case False
    then show ?thesis using r b q by (auto simp: sgn_if)
  qed
  then show ?thesis
    unfolding go_quo_def by (intro sint_word_of_int_64) auto
qed

lemma go_quo_nonneg:
  assumes "0 \<le> sint a" "0 < sint b"
  shows "sint (go_quo a b) = sint a div sint b"
  using go_quo_pos [OF assms(2), of a] assms by (simp add: signed_divide_int_def sgn_if)


lemma sint_unixToInternal: "sint unixToInternal = 62135596800"
  by (simp add: unixToInternal_def)

lemma sec_of_Unix:
  assumes "- (2 ^ 62) \<le> sint (Unix t)" "sint (Unix t) < 2 ^ 62"
  shows "sint (sec t) = sint (Unix t) + 62135596800"
proof -
  have "sec t = Unix t + unixToInternal" by (simp add: Unix_def)
  moreover have "sint (Unix t + unixToInternal) = sint (Unix t) + sint unixToInternal"
    using assms by (intro sint_add_64) (auto simp: sint_unixToInternal)
  ultimately show ?thesis by (simp add: sint_unixToInternal)
qed

lemma instant_time_Unix:
  assumes "- (2 ^ 63) \<le> sint x + 62135596800" "sint x + 62135596800 < 2 ^ 63"
  shows "instant (time_Unix x) = sint x * 1000000000"
proof -
  have "sint (x + unixToInternal) = sint x + sint unixToInternal"
    using assms by (intro sint_add_64) (auto simp: sint_unixToInternal)
  then show ?thesis by (simp add: instant_def time_Unix_def sint_unixToInternal)
qed

lemma getPreviousEpoch_value:
  assumes p: "0 < sint (epochPeriodSeconds c)"
    and a: "- (2 ^ 62) \<le> sint (epochTimeSeconds c)"
    and n: "sint (epochTimeSeconds c) \<le> sint (Unix now)" "sint (Unix now) < 2 ^ 62"
  shows "\<exists>e. getPreviousEpoch c now = Inr e
           \<and> sint e = (sint (Unix now) - sint (epochTimeSeconds c)) div sint (epochPeriodSeconds c) - 1"
proof -
  let ?n = "sint (Unix now)"
  let ?a = "sint (epochTimeSeconds c)"
  let ?p = "sint (epochPeriodSeconds c)"
  have d: "sint (Unix now - epochTimeSeconds c) = ?n - ?a"
    using a n by (intro sint_diff_64) auto
  have d0: "0 \<le> ?n - ?a" "?n - ?a < 2 ^ 63" using a n by auto
  have q: "sint (go_quo (Unix now - epochTimeSeconds c) (epochPeriodSeconds c)) = (?n - ?a) div ?p"
    using go_quo_nonneg [of "Unix now - epochTimeSeconds c" "epochPeriodSeconds c"] d d0 p by simp
  have qb: "0 \<le> (?n - ?a) div ?p" "(?n - ?a) div ?p \<le> ?n - ?a"
    using int_div_le_self [of "?n - ?a" ?p] d0 p by auto
  have m: "sint (go_quo (Unix now - epochTimeSeconds c) (epochPeriodSeconds c) - 1) = (?n - ?a) div ?p - 1"
    using q qb d0 by (intro sint_diff_64 [THEN trans]) auto
  have nz: "epochPeriodSeconds c \<noteq> 0" using p by auto
  have "getPreviousEpoch c now
          = Inr (go_quo (Unix now - epochTimeSeconds c) (epochPeriodSeconds c) - 1)"
    using nz by (simp add: getPreviousEpoch_def Let_def)
  with m show ?thesis by blast
qed

lemma Add_whole_seconds:
  assumes p: "0 < sint p" "sint p \<le> 9223372036"
    and z: "nsec t = 0"
    and r: "sint (sec t) + sint p < 2 ^ 63"
  shows "Add t (p * Second) = t\<lparr>sec := sec t + p\<rparr>"
proof -
  have "sint p * 1000000000 \<le> 9223372036 * 1000000000" using p by (intro mult_right_mono) auto
  then have pb: "- (2 ^ 63) \<le> sint p * sint Second" "sint p * sint Second < 2 ^ 63"
    using p by (auto simp: sint_Second)
  have d: "sint (p * Second) = sint p * 1000000000"
    using pb by (intro sint_mult_64 [THEN trans]) (auto simp: sint_Second)
  have b: "0 < sint (1000000000 :: int64)" by simp
  have dn: "0 \<le> sint (p * Second)" using d p by simp
  have "sint (go_quo (p * Second) 1000000000) = sint (p * Second) div sint (1000000000 :: int64)"
    by (rule go_quo_nonneg [OF dn b])
  also have "\<dots> = sint p" by (simp add: d)
  finally have q: "go_quo (p * Second) 1000000000 = p" by (rule signed_word_eqI)
  have "sint (p * Second) smod sint (1000000000 :: int64) = 0"
    by (simp add: d signed_modulo_int_def)
  then have m: "go_rem (p * Second) 1000000000 = 0" by (simp add: go_rem_def)
  have lo: "- (2 ^ 63) \<le> sint (sec t) + sint p"
    using sint_range_64 (1) [of "sec t"] p by linarith
  have s: "sint (sec t + p) = sint (sec t) + sint p"
    using lo r by (intro sint_add_64) auto
  have a: "addSec (t\<lparr>nsec := 0\<rparr>) p = t\<lparr>sec := sec t + p\<rparr>"
    using p z by (simp add: addSec_def Let_def s)
  have "Add t (p * Second) = addSec (t\<lparr>nsec := 0\<rparr>) p"
    by (simp add: Add_def Let_def q m z)
  with a show ?thesis by simp
qed

lemma epochWindow_fst:
  "fst (epochWindow c i) = time_Unix (epochTimeSeconds c + i * epochPeriodSeconds c)"
  by (simp add: epochWindow_def Let_def)

lemma epochWindow_value:
  assumes p: "0 < sint (epochPeriodSeconds c)" "sint (epochPeriodSeconds c) \<le> 9223372036"
    and m: "- (2 ^ 63) \<le> sint i * sint (epochPeriodSeconds c)" "sint i * sint (epochPeriodSeconds c) < 2 ^ 63"
    and s: "- (2 ^ 63) \<le> sint (epochTimeSeconds c) + sint i * sint (epochPeriodSeconds c)"
           "sint (epochTimeSeconds c) + (sint i + 1) * sint (epochPeriodSeconds c) \<le> 9223371974719179007"
  shows "epochWindow c i =
           (time_Unix (epochTimeSeconds c + i * epochPeriodSeconds c),
            time_Unix (epochTimeSeconds c + (i + 1) * epochPeriodSeconds c))"
    and "instant (fst (epochWindow c i))
           = (sint (epochTimeSeconds c) + sint i * sint (epochPeriodSeconds c)) * 1000000000"
    and "instant (snd (epochWindow c i))
           = (sint (epochTimeSeconds c) + (sint i + 1) * sint (epochPeriodSeconds c)) * 1000000000"
proof -
  let ?a = "sint (epochTimeSeconds c)"
  let ?p = "sint (epochPeriodSeconds c)"
  let ?x = "epochTimeSeconds c + i * epochPeriodSeconds c"
  have e: "(sint i + 1) * ?p = sint i * ?p + ?p" by (simp add: algebra_simps)
  have up: "?a + sint i * ?p + ?p \<le> 9223371974719179007" using s(2) e by simp
  have ip: "sint (i * epochPeriodSeconds c) = sint i * ?p"
    using m by (intro sint_mult_64) auto
  have sx: "sint ?x = ?a + sint i * ?p"
    using s(1) up p ip by (intro sint_add_64 [THEN trans]) auto
  have sk: "sint (?x + unixToInternal) = ?a + sint i * ?p + 62135596800"
    using s(1) up p sx by (intro sint_add_64 [THEN trans]) (auto simp: sint_unixToInternal)
  have r: "sint (sec (time_Unix ?x)) + ?p < 2 ^ 63"
    using up sk by (simp add: time_Unix_def)
  have z: "nsec (time_Unix ?x) = 0" by (simp add: time_Unix_def)
  have ad: "Add (time_Unix ?x) (epochPeriodSeconds c * Second)
              = (time_Unix ?x)\<lparr>sec := sec (time_Unix ?x) + epochPeriodSeconds c\<rparr>"
    by (rule Add_whole_seconds [OF p z r])
  have w: "(time_Unix ?x)\<lparr>sec := sec (time_Unix ?x) + epochPeriodSeconds c\<rparr>
             = time_Unix (epochTimeSeconds c + (i + 1) * epochPeriodSeconds c)"
    by (simp add: time_Unix_def algebra_simps)
  show win: "epochWindow c i =
           (time_Unix ?x, time_Unix (epochTimeSeconds c + (i + 1) * epochPeriodSeconds c))"
    by (simp add: epochWindow_def Let_def ad w)
  have i1: "instant (time_Unix ?x) = sint ?x * 1000000000"
    using s(1) up p sx by (intro instant_time_Unix) auto
  show "instant (fst (epochWindow c i)) = (?a + sint i * ?p) * 1000000000"
    by (simp add: win i1 sx)
  have sy: "sint (?x + epochPeriodSeconds c) = ?a + sint i * ?p + ?p"
    using s(1) up p sx by (intro sint_add_64 [THEN trans]) auto
  have y: "epochTimeSeconds c + (i + 1) * epochPeriodSeconds c = ?x + epochPeriodSeconds c"
    by (simp add: algebra_simps)
  have i2: "instant (time_Unix (?x + epochPeriodSeconds c)) = sint (?x + epochPeriodSeconds c) * 1000000000"
    using s(1) up p sy by (intro instant_time_Unix) auto
  show "instant (snd (epochWindow c i)) = (?a + (sint i + 1) * ?p) * 1000000000"
    by (simp add: win y i2 sy e)
qed

section \<open>Properties of the mirroring cronjob\<close>

text \<open>The equations that run the model on the concrete collaborators.\<close>

lemmas mirror_simps =
  demo_env_def demo_job_def demo_world_def demo_tx_def demo_select_def
  demo_mark_def demo_FromString_def demo_verify_def
  getPreviousEpoch_def go_quo_def Unix_def signed_divide_int_def
  getUnmirroredTxs_def epochWindow_def time_Unix_def Add_def Second_def
  addSec_def go_rem_def signed_modulo_int_def unixToInternal_def Before_def
  buildTree_def toStakeData_def getMerkleProof_def mirrorTx_def mirrorTxs_def Call_def

subsection \<open>What a submission sweep can change\<close>

lemma mirrorTx_db:
  "mirrorTx env c w inp = (r, w1, cs) \<Longrightarrow> db w1 = db w \<and> clock w1 = clock w"
  by (auto simp: mirrorTx_def split: option.splits sum.splits prod.splits)

lemma getMerkleProof_calls:
  "getMerkleProof env t h = (r, cs) \<Longrightarrow> cs = [CallGetProofFromHash h]"
  by (auto simp: getMerkleProof_def split: sum.splits)

lemma mirrorTx_no_mark:
  "mirrorTx env c w inp = (r, w1, cs) \<Longrightarrow> x \<in> set cs \<Longrightarrow> \<not> isMark x \<and> \<not> isBuild x"
  by (auto simp: mirrorTx_def split: option.splits sum.splits prod.splits
           dest!: getMerkleProof_calls)

lemma mirrorTxs_loop_db:
  "mirrorTxs_loop env c w tree ep txs = (r, w1, cs) \<Longrightarrow> db w1 = db w \<and> clock w1 = clock w"
proof (induction txs arbitrary: w r w1 cs)
  case Nil
  then show ?case by simp
next
  case (Cons t txs)
  obtain r0 w0 cs0 where m: "mirrorTx env c w \<lparr> in_epochID = sint ep, in_merkleTree = tree, in_tx = t \<rparr> = (r0, w0, cs0)"
    by (metis prod_cases3)
  from mirrorTx_db [OF m] have d: "db w0 = db w" "clock w0 = clock w" by auto
  show ?case
  proof (cases r0)
    case None
    obtain r2 w2 cs2 where l: "mirrorTxs_loop env c w0 tree ep txs = (r2, w2, cs2)"
      by (metis prod_cases3)
    from Cons.prems m None l have "w1 = w2" by simp
    with Cons.IH [OF l] d show ?thesis by simp
  next
    case (Some e)
    with Cons.prems m have "w1 = w0" by simp
    with d show ?thesis by simp
  qed
qed

lemma mirrorTxs_loop_no_mark:
  "mirrorTxs_loop env c w tree ep txs = (r, w1, cs) \<Longrightarrow> x \<in> set cs \<Longrightarrow> \<not> isMark x \<and> \<not> isBuild x"
proof (induction txs arbitrary: w r w1 cs)
  case Nil
  then show ?case by simp
next
  case (Cons t txs)
  obtain r0 w0 cs0 where m: "mirrorTx env c w \<lparr> in_epochID = sint ep, in_merkleTree = tree, in_tx = t \<rparr> = (r0, w0, cs0)"
    by (metis prod_cases3)
  show ?case
  proof (cases r0)
    case None
    obtain r2 w2 cs2 where l: "mirrorTxs_loop env c w0 tree ep txs = (r2, w2, cs2)"
      by (metis prod_cases3)
    from Cons.prems(1) m None l have "cs = cs0 @ cs2" by simp
    with Cons.prems(2) have "x \<in> set cs0 \<or> x \<in> set cs2" by simp
    then show ?thesis using mirrorTx_no_mark [OF m] Cons.IH [OF l] by blast
  next
    case (Some e)
    with Cons.prems(1) m have "cs = cs0" by simp
    with Cons.prems(2) mirrorTx_no_mark [OF m] show ?thesis by simp
  qed
qed

lemma mirrorTxs_loop_append:
  "mirrorTxs_loop env c w tree ep (xs @ ys) =
     (case mirrorTxs_loop env c w tree ep xs of
        (Some e, w1, cs) \<Rightarrow> (Some e, w1, cs)
      | (None, w1, cs) \<Rightarrow>
          (case mirrorTxs_loop env c w1 tree ep ys of (r, w2, cs2) \<Rightarrow> (r, w2, cs @ cs2)))"
proof (induction xs arbitrary: w)
  case Nil
  then show ?case by (simp split: prod.splits)
next
  case (Cons t xs)
  show ?case
    by (simp add: Cons.IH split: prod.splits option.splits)
qed

lemma mirrorTxs_loop_fails_at:
  assumes k: "k < length txs"
    and pre: "mirrorTxs_loop env c w tree ep (take k txs) = (None, wk, csk)"
    and kth: "mirrorTx env c wk \<lparr> in_epochID = sint ep, in_merkleTree = tree, in_tx = txs ! k \<rparr> = (Some err, wk1, cf)"
  shows "mirrorTxs_loop env c w tree ep txs = (Some err, wk1, csk @ cf)"
proof -
  have "txs = take k txs @ (txs ! k) # drop (Suc k) txs"
    using k by (simp add: id_take_nth_drop)
  then have "mirrorTxs_loop env c w tree ep txs =
      mirrorTxs_loop env c w tree ep (take k txs @ (txs ! k) # drop (Suc k) txs)"
    by simp
  also have "\<dots> = (Some err, wk1, csk @ cf)"
    by (simp only: mirrorTxs_loop_append pre) (simp add: kth)
  finally show ?thesis .
qed

lemma buildTree_calls:
  "buildTree env txs = (r, cs) \<Longrightarrow> x \<in> set cs \<Longrightarrow> \<not> isMark x \<and> \<not> isVerify x \<and> \<not> isProof x"
  by (auto simp: buildTree_def split: sum.splits)

lemma getUnmirroredTxs_calls:
  "getUnmirroredTxs env c w ep = (r, cs) \<Longrightarrow>
     cs = [CallGetUnmirroredPChainTxs (fst (epochWindow c ep)) (snd (epochWindow c ep))]"
  by (auto simp: getUnmirroredTxs_def split: prod.splits)


text \<open>
  C1. Mirroring atomicity. A run has selected the transactions \<open>txs\<close> and built their
  tree; the first \<open>k\<close> of them were submitted without error and the submission of the next
  one returns \<open>err\<close>. Then the run returns that error, its calls contain no call of
  \<open>database.MarkTxsAsMirrored\<close>, and the staking-transaction table is the one the run
  started with: none of the transactions is marked mirrored.
\<close>

theorem mirroring_atomicity:
  assumes epoch: "getPreviousEpoch c (clock w) = Inr epoch" "\<not> sint epoch < 0"
    and sel: "getUnmirroredTxs env c w epoch = (Inr txs, cs0)"
    and tree: "buildTree env txs = (Inr tree, cb)"
    and k: "k < length txs"
    and pre: "mirrorTxs_loop env c w tree epoch (take k txs) = (None, wk, csk)"
    and kth: "mirrorTx env c wk \<lparr> in_epochID = sint epoch, in_merkleTree = tree, in_tx = txs ! k \<rparr>
                = (Some err, wk1, cf)"
  shows "Call env c w = (Some err, wk1, cs0 @ cb @ csk @ cf)
       \<and> (\<forall>x \<in> set (cs0 @ cb @ csk @ cf). \<not> isMark x)
       \<and> db wk1 = db w"
proof -
  have loop: "mirrorTxs_loop env c w tree epoch txs = (Some err, wk1, csk @ cf)"
    by (rule mirrorTxs_loop_fails_at [OF k pre kth])
  have sweep: "mirrorTxs env c w txs epoch = (Some err, wk1, cb @ csk @ cf)"
    by (simp add: mirrorTxs_def tree loop)
  have ne: "length txs \<noteq> 0" using k by auto
  have call: "Call env c w = (Some err, wk1, cs0 @ cb @ csk @ cf)"
    using ne by (simp add: Call_def epoch sel sweep)
  have nm: "\<forall>x \<in> set (cs0 @ cb @ csk @ cf). \<not> isMark x"
  proof
    fix x assume "x \<in> set (cs0 @ cb @ csk @ cf)"
    then consider "x \<in> set cs0" | "x \<in> set cb" | "x \<in> set (csk @ cf)" by auto
    then show "\<not> isMark x"
    proof cases
      case 1
      with getUnmirroredTxs_calls [OF sel] show ?thesis by auto
    next
      case 2
      with buildTree_calls [OF tree] show ?thesis by blast
    next
      case 3
      with mirrorTxs_loop_no_mark [OF loop] show ?thesis by blast
    qed
  qed
  have "db wk1 = db w" using mirrorTxs_loop_db [OF loop] by simp
  with call nm show ?thesis by blast
qed

theorem mirroring_atomicity_witness:
  "fst (Call demo_env demo_job (demo_world demo_rows))
     = Some (Wrap (New ''execution reverted'') ''mirroringContract.VerifyStake'')
   \<and> filter isMark (snd (snd (Call demo_env demo_job (demo_world demo_rows)))) = []
   \<and> db (fst (snd (Call demo_env demo_job (demo_world demo_rows)))) = demo_rows"
proof -
  let ?w = "demo_world demo_rows"
  let ?txs = "map (\<lambda>r. snd (snd r)) demo_rows"
  let ?tree = "[[1], [2], [1, 2]] :: hash list"
  have epoch: "getPreviousEpoch demo_job (clock ?w) = Inr 1" "\<not> sint (1 :: int64) < 0"
    by (simp_all add: mirror_simps demo_rows_def)
  obtain cs0 where sel: "getUnmirroredTxs demo_env demo_job ?w 1 = (Inr ?txs, cs0)"
    by (simp add: mirror_simps demo_rows_def)
  obtain cb where tree: "buildTree demo_env ?txs = (Inr ?tree, cb)"
    by (simp add: mirror_simps demo_rows_def)
  have k: "1 < length ?txs" by (simp add: mirror_simps demo_rows_def)
  obtain wk csk where pre:
    "mirrorTxs_loop demo_env demo_job ?w ?tree 1 (take 1 ?txs) = (None, wk, csk)"
    by (simp add: mirror_simps demo_rows_def)
  obtain wk1 cf where kth:
    "mirrorTx demo_env demo_job wk \<lparr> in_epochID = sint (1 :: int64), in_merkleTree = ?tree, in_tx = ?txs ! 1 \<rparr>
       = (Some (Wrap (New ''execution reverted'') ''mirroringContract.VerifyStake''), wk1, cf)"
    using pre by (auto simp add: mirror_simps demo_rows_def)
  from mirroring_atomicity [OF epoch sel tree k pre kth] show ?thesis
    by (simp add: demo_world_def filter_empty_conv)
qed

subsection \<open>Selection and tree construction\<close>

text \<open>
  C8. A run whose selection of unmirrored transactions is empty returns success and
  leaves everything as it was; the selection is the only call it makes, so no tree is
  built, nothing is submitted and \<open>database.MarkTxsAsMirrored\<close> is not called. A run
  started again after its batch was marked finds an empty selection and is such a run.
\<close>

theorem empty_selection_is_noop:
  assumes "getPreviousEpoch c (clock w) = Inr epoch" "\<not> sint epoch < 0"
    and "fst (getUnmirroredTxs env c w epoch) = Inr []"
  shows "Call env c w =
           (None, w, [CallGetUnmirroredPChainTxs (fst (epochWindow c epoch)) (snd (epochWindow c epoch))])"
proof -
  obtain cs where s: "getUnmirroredTxs env c w epoch = (Inr [], cs)"
    using assms(3) by (cases "getUnmirroredTxs env c w epoch") auto
  from getUnmirroredTxs_calls [OF s] s assms(1,2) show ?thesis
    by (simp add: Call_def)
qed

theorem empty_selection_is_noop_witness:
  "fst (Call demo_env demo_job (demo_world demo_rows_ok)) = None
   \<and> filter isMark (snd (snd (Call demo_env demo_job (demo_world demo_rows_ok)))) \<noteq> []
   \<and> Call demo_env demo_job (fst (snd (Call demo_env demo_job (demo_world demo_rows_ok))))
       = (None, fst (snd (Call demo_env demo_job (demo_world demo_rows_ok))),
          [CallGetUnmirroredPChainTxs (time_Unix 3600) (time_Unix 7200)])"
proof -
  obtain w1 cs1 where run1: "Call demo_env demo_job (demo_world demo_rows_ok) = (None, w1, cs1)"
    and w1: "clock w1 = (time_Unix 7300)"
            "db w1 = [(time_Unix 4000, True, demo_tx (Some ''A'') PChainAddValidatorTx 5),
                      (time_Unix 4200, True, demo_tx (Some ''AB'') PChainAddDelegatorTx 5)]"
    and m: "filter isMark cs1 \<noteq> []"
    by (simp add: mirror_simps demo_rows_ok_def)
  have e: "getPreviousEpoch demo_job (clock w1) = Inr 1" "\<not> sint (1 :: int64) < 0"
    by (simp_all add: w1 mirror_simps demo_rows_ok_def)
  have s: "fst (getUnmirroredTxs demo_env demo_job w1 1) = Inr []"
    by (simp add: w1 mirror_simps demo_rows_ok_def)
  from empty_selection_is_noop [OF e s] run1 m show ?thesis
    by (simp add: mirror_simps demo_rows_ok_def)
qed

lemma buildTree_loop_unresolvable:
  assumes "tx \<in> set txs"
    and "TxID tx = None \<or> (\<exists>s err. TxID tx = Some s \<and> ids_FromString env s = Inl err)"
  shows "\<exists>err. buildTree_loop env txs hashes = Inl err"
  using assms
proof (induction txs arbitrary: hashes)
  case Nil
  then show ?case by simp
next
  case (Cons t txs)
  show ?case
  proof (cases "TxID t")
    case None
    then show ?thesis by simp
  next
    case (Some s)
    show ?thesis
    proof (cases "ids_FromString env s")
      case (Inl err)
      with Some show ?thesis by simp
    next
      case (Inr h)
      with Some Cons.prems have "tx \<in> set txs" by auto
      from Cons.IH [OF this Cons.prems(2)] Some Inr show ?thesis by simp
    qed
  qed
qed

text \<open>
  C4. If a transaction of the batch has a nil identifier, or one that \<open>ids.FromString\<close>
  rejects, \<open>buildTree\<close> returns an error and \<open>mirrorTxs\<close> returns it without any call: no
  inclusion proof is requested and nothing is submitted. A run that selected this batch
  fails after its selection, with no further call.
\<close>

theorem unresolvable_id_aborts_batch:
  assumes "tx \<in> set txs"
    and "TxID tx = None \<or> (\<exists>s err. TxID tx = Some s \<and> ids_FromString env s = Inl err)"
  shows "(\<exists>err. buildTree env txs = (Inl err, []))
       \<and> (\<exists>err. mirrorTxs env c w txs epochID = (Some err, w, []))
       \<and> (getPreviousEpoch c (clock w) = Inr epochID \<and> \<not> sint epochID < 0
            \<and> getUnmirroredTxs env c w epochID = (Inr txs, cs0)
          \<longrightarrow> (\<exists>err. Call env c w = (Some err, w, cs0)))"
proof -
  obtain err where l: "buildTree_loop env txs [] = Inl err"
    using buildTree_loop_unresolvable [OF assms] by blast
  have b: "buildTree env txs = (Inl err, [])" by (simp add: buildTree_def l)
  have m: "mirrorTxs env c w txs epochID = (Some err, w, [])" by (simp add: mirrorTxs_def b)
  have ne: "length txs \<noteq> 0" using assms(1) by auto
  have "getPreviousEpoch c (clock w) = Inr epochID \<and> \<not> sint epochID < 0
            \<and> getUnmirroredTxs env c w epochID = (Inr txs, cs0)
          \<longrightarrow> Call env c w = (Some err, w, cs0)"
    using ne by (simp add: Call_def m)
  with b m show ?thesis by blast
qed

theorem unresolvable_id_aborts_batch_witness:
  "Call demo_env demo_job
     (demo_world [(time_Unix 4000, False, demo_tx (Some ''A'') PChainAddValidatorTx 5),
                  (time_Unix 4100, False, demo_tx None PChainAddValidatorTx 5)])
   = (Some (New ''tx.TxID is nil''),
      demo_world [(time_Unix 4000, False, demo_tx (Some ''A'') PChainAddValidatorTx 5),
                  (time_Unix 4100, False, demo_tx None PChainAddValidatorTx 5)],
      [CallGetUnmirroredPChainTxs (time_Unix 3600) (time_Unix 7200)])
   \<and> fst (buildTree demo_env [demo_tx (Some ''A'') PChainAddValidatorTx 5, demo_tx (Some ''A!'') PChainAddValidatorTx 5])
       = Inl (Wrap (New ''invalid id'') ''ids.FromString'')"
proof -
  let ?bad = "demo_tx None PChainAddValidatorTx 5"
  let ?txs = "[demo_tx (Some ''A'') PChainAddValidatorTx 5, ?bad]"
  have i: "?bad \<in> set ?txs" by simp
  have n: "TxID ?bad = None \<or> (\<exists>s err. TxID ?bad = Some s \<and> ids_FromString demo_env s = Inl err)"
    by (simp add: mirror_simps)
  from unresolvable_id_aborts_batch [OF i n] show ?thesis
    by (simp add: mirror_simps)
qed

subsection \<open>The stake claim\<close>

text \<open>
  C5. \<open>toStakeData\<close> returns an error exactly when the type tag is neither validator-add
  nor delegator-add, or the node id does not parse, or the start time or the end time is
  nil; when it succeeds, the field \<open>TransactionType\<close> is 0 for validator-add and 1 for
  delegator-add.
\<close>

theorem toStakeData_errors:
  "((\<exists>err. toStakeData env tx epochID txHash = Inl err) \<longleftrightarrow>
      (Type tx \<noteq> PChainAddValidatorTx \<and> Type tx \<noteq> PChainAddDelegatorTx)
      \<or> (\<exists>err. ids_NodeIDFromString env (NodeID tx) = Inl err)
      \<or> StartTime tx = None \<or> EndTime tx = None)
   \<and> (\<forall>s. toStakeData env tx epochID txHash = Inr s \<longrightarrow>
          (Type tx = PChainAddValidatorTx \<and> stake_TransactionType s = 0)
          \<or> (Type tx = PChainAddDelegatorTx \<and> stake_TransactionType s = 1))"
  by (cases "Type tx"; cases "ids_NodeIDFromString env (NodeID tx)";
      cases "StartTime tx"; cases "EndTime tx")
     (auto simp: toStakeData_def)

theorem toStakeData_errors_witness:
  "(\<exists>s. toStakeData demo_env (demo_tx (Some ''B'') PChainAddDelegatorTx 5) 1 [2] = Inr s
        \<and> stake_TransactionType s = 1)
   \<and> (\<exists>err. toStakeData demo_env (demo_tx (Some ''B'') (PChainOtherTx ''IMPORT_TX'') 5) 1 [2] = Inl err)"
  using toStakeData_errors [of demo_env "demo_tx (Some ''B'') PChainAddDelegatorTx 5" 1 "[2]"]
        toStakeData_errors [of demo_env "demo_tx (Some ''B'') (PChainOtherTx ''IMPORT_TX'') 5" 1 "[2]"]
  by (simp add: mirror_simps)

subsection \<open>The job\<close>

text \<open>
  C9. Every job that \<open>NewMirrorCronjob\<close> constructs reports itself disabled:
  \<open>Enabled\<close> returns false whatever the configuration.
\<close>

theorem mirror_job_disabled:
  "NewMirrorCronjob env cfg = Inr c \<Longrightarrow> Enabled c = False"
  by (simp add: Enabled_def)

theorem mirror_job_disabled_witness:
  "NewMirrorCronjob demo_env (demo_cfg 3600000000000) = Inr demo_job \<and> Enabled demo_job = False"
proof -
  have h: "NewMirrorCronjob demo_env (demo_cfg 3600000000000) = Inr demo_job"
    by (simp add: NewMirrorCronjob_def newMirroringContract_def mirror_simps demo_cfg_def)
  from mirror_job_disabled [OF h] h show ?thesis by simp
qed

text \<open>
  C10. For a job constructed from a configuration: if the epoch period is at least one
  second, \<open>epochPeriodSeconds\<close> is positive and \<open>getPreviousEpoch\<close> returns the quotient it
  computes; if the period is shorter than one second (its magnitude is, whatever its
  sign), \<open>epochPeriodSeconds\<close> is zero, nothing guards the division, and \<open>Call\<close> ends in
  the division-by-zero panic before any call.
\<close>

theorem epoch_period_division:
  assumes "NewMirrorCronjob env cfg = Inr c"
  shows "(1000000000 \<le> sint (EpochPeriod (Mirror cfg)) \<longrightarrow>
            0 < sint (epochPeriodSeconds c)
          \<and> getPreviousEpoch c now
              = Inr (go_quo (Unix now - epochTimeSeconds c) (epochPeriodSeconds c) - 1))
       \<and> (- 1000000000 < sint (EpochPeriod (Mirror cfg)) \<and> sint (EpochPeriod (Mirror cfg)) < 1000000000 \<longrightarrow>
            epochPeriodSeconds c = 0
          \<and> getPreviousEpoch c now = Inl (Panic ''runtime error: integer divide by zero'')
          \<and> Call env c w = (Some (Panic ''runtime error: integer divide by zero''), w, []))"
proof -
  let ?P = "sint (EpochPeriod (Mirror cfg))"
  have c: "epochPeriodSeconds c = go_quo (EpochPeriod (Mirror cfg)) Second"
    using assms by (auto simp: NewMirrorCronjob_def split: sum.splits)
  have s: "sint (epochPeriodSeconds c) = ?P sdiv 1000000000"
    unfolding c using go_quo_pos [of Second "EpochPeriod (Mirror cfg)"] by (simp add: sint_Second)
  have big: "0 < sint (epochPeriodSeconds c)" if "1000000000 \<le> ?P"
  proof -
    have "?P sdiv 1000000000 = ?P div 1000000000"
      using that by (simp add: signed_divide_int_def sgn_if)
    moreover have "1000000000 div 1000000000 \<le> ?P div (1000000000 :: int)"
      using that by (intro zdiv_mono1) auto
    ultimately show ?thesis using s by simp
  qed
  have small: "epochPeriodSeconds c = 0" if "- 1000000000 < ?P" "?P < 1000000000"
  proof -
    have "\<bar>?P\<bar> div 1000000000 = 0" using that by (intro div_pos_pos_trivial) auto
    then have "?P sdiv 1000000000 = 0" by (simp add: signed_divide_int_def)
    then show ?thesis unfolding c go_quo_def by (simp add: sint_Second)
  qed
  have g1: "getPreviousEpoch c now
              = Inr (go_quo (Unix now - epochTimeSeconds c) (epochPeriodSeconds c) - 1)"
    if "1000000000 \<le> ?P"
  proof -
    have "epochPeriodSeconds c \<noteq> 0" using big [OF that] by auto
    then show ?thesis by (simp add: getPreviousEpoch_def Let_def)
  qed
  have g2: "getPreviousEpoch c t = Inl (Panic ''runtime error: integer divide by zero'')"
    if "- 1000000000 < ?P" "?P < 1000000000" for t
    using small [OF that] by (simp add: getPreviousEpoch_def)
  have g3: "Call env c w = (Some (Panic ''runtime error: integer divide by zero''), w, [])"
    if "- 1000000000 < ?P" "?P < 1000000000"
    using g2 [OF that, of "clock w"] by (simp add: Call_def)
  show ?thesis using big small g1 g2 g3 by blast
qed

theorem epoch_period_division_witness:
  "NewMirrorCronjob demo_env (demo_cfg 3600000000000) = Inr demo_job
   \<and> 0 < sint (epochPeriodSeconds demo_job)
   \<and> getPreviousEpoch demo_job (time_Unix 7300) = Inr 1
   \<and> (\<exists>c. NewMirrorCronjob demo_env (demo_cfg 999999999) = Inr c
          \<and> epochPeriodSeconds c = 0
          \<and> Call demo_env c (demo_world [])
              = (Some (Panic ''runtime error: integer divide by zero''), demo_world [], []))"
proof -
  have h1: "NewMirrorCronjob demo_env (demo_cfg 3600000000000) = Inr demo_job"
    by (simp add: NewMirrorCronjob_def newMirroringContract_def mirror_simps demo_cfg_def)
  obtain c where h2: "NewMirrorCronjob demo_env (demo_cfg 999999999) = Inr c"
    by (simp add: NewMirrorCronjob_def newMirroringContract_def mirror_simps demo_cfg_def)
  have p1: "1000000000 \<le> sint (EpochPeriod (Mirror (demo_cfg 3600000000000)))"
    by (simp add: demo_cfg_def)
  have p2: "- 1000000000 < sint (EpochPeriod (Mirror (demo_cfg 999999999)))"
           "sint (EpochPeriod (Mirror (demo_cfg 999999999))) < 1000000000"
    by (simp_all add: demo_cfg_def)
  have g: "getPreviousEpoch demo_job (time_Unix 7300) = Inr 1"
    by (simp add: mirror_simps demo_cfg_def)
  from epoch_period_division [OF h1, of "time_Unix 7300" "demo_world []"]
       epoch_period_division [OF h2, of "time_Unix 7300" "demo_world []"]
       h1 h2 p1 p2 g
  show ?thesis by simp
qed

subsection \<open>The epoch clock\<close>

text \<open>
  C6, as the code has it. Seconds are Unix seconds; \<open>now\<close> is the second the clock
  shows. Take a period of 1 to 9223372036 seconds (what a \<open>time.Duration\<close> can hold), an
  anchor not before \<open>-2^62\<close> and a \<open>now\<close> not before the anchor and before \<open>2^62\<close>. The
  previous epoch is \<open>floor((now - anchor) / period) - 1\<close>. For every epoch \<open>i\<close> for which
  \<open>i * period\<close> and \<open>anchor + i * period\<close> fit 64 bits and \<open>anchor + (i + 1) * period\<close> is
  at most 9223371974719179007, the last second a \<open>time.Time\<close> holds without wrapping or
  saturating, the window of epoch \<open>i\<close> is
  \<open>[anchor + i * period, anchor + (i + 1) * period)\<close>.
\<close>

theorem previous_epoch_and_window:
  assumes p: "0 < sint (epochPeriodSeconds c)" "sint (epochPeriodSeconds c) \<le> 9223372036"
    and a: "- (2 ^ 62) \<le> sint (epochTimeSeconds c)"
    and n: "sint (epochTimeSeconds c) \<le> sint (Unix now)" "sint (Unix now) < 2 ^ 62"
  shows "(\<exists>e. getPreviousEpoch c now = Inr e
            \<and> sint e = (sint (Unix now) - sint (epochTimeSeconds c)) div sint (epochPeriodSeconds c) - 1)
       \<and> (\<forall>i. - (2 ^ 63) \<le> sint i * sint (epochPeriodSeconds c)
              \<and> sint i * sint (epochPeriodSeconds c) < 2 ^ 63
              \<and> - (2 ^ 63) \<le> sint (epochTimeSeconds c) + sint i * sint (epochPeriodSeconds c)
              \<and> sint (epochTimeSeconds c) + (sint i + 1) * sint (epochPeriodSeconds c)
                    \<le> 9223371974719179007
            \<longrightarrow> epochWindow c i =
                  (time_Unix (epochTimeSeconds c + i * epochPeriodSeconds c),
                   time_Unix (epochTimeSeconds c + (i + 1) * epochPeriodSeconds c))
                \<and> instant (fst (epochWindow c i))
                    = (sint (epochTimeSeconds c) + sint i * sint (epochPeriodSeconds c)) * 1000000000
                \<and> instant (snd (epochWindow c i))
                    = (sint (epochTimeSeconds c) + (sint i + 1) * sint (epochPeriodSeconds c)) * 1000000000)"
  using getPreviousEpoch_value [OF p(1) a n] epochWindow_value [OF p] by blast

theorem previous_epoch_and_window_witness:
  "0 < sint (epochPeriodSeconds demo_job) \<and> sint (epochPeriodSeconds demo_job) \<le> 9223372036
   \<and> - (2 ^ 62) \<le> sint (epochTimeSeconds demo_job)
   \<and> sint (epochTimeSeconds demo_job) \<le> sint (Unix (time_Unix 7300))
   \<and> sint (Unix (time_Unix 7300)) < 2 ^ 62
   \<and> getPreviousEpoch demo_job (time_Unix 7300) = Inr 1
   \<and> epochWindow demo_job 1 = (time_Unix 3600, time_Unix 7200)
   \<and> instant (fst (epochWindow demo_job 1)) = 3600 * 1000000000
   \<and> instant (snd (epochWindow demo_job 1)) = 7200 * 1000000000"
proof -
  have p: "0 < sint (epochPeriodSeconds demo_job)" "sint (epochPeriodSeconds demo_job) \<le> 9223372036"
    by (simp_all add: demo_job_def)
  have a: "- (2 ^ 62) \<le> sint (epochTimeSeconds demo_job)" by (simp add: demo_job_def)
  have n: "sint (epochTimeSeconds demo_job) \<le> sint (Unix (time_Unix 7300))"
          "sint (Unix (time_Unix 7300)) < 2 ^ 62"
    by (simp_all add: demo_job_def Unix_def time_Unix_def)
  have g: "getPreviousEpoch demo_job (time_Unix 7300) = Inr 1" by (simp add: mirror_simps)
  have r: "- (2 ^ 63) \<le> sint (1 :: int64) * sint (epochPeriodSeconds demo_job)
              \<and> sint (1 :: int64) * sint (epochPeriodSeconds demo_job) < 2 ^ 63
              \<and> - (2 ^ 63) \<le> sint (epochTimeSeconds demo_job) + sint (1 :: int64) * sint (epochPeriodSeconds demo_job)
              \<and> sint (epochTimeSeconds demo_job) + (sint (1 :: int64) + 1) * sint (epochPeriodSeconds demo_job)
                    \<le> 9223371974719179007"
    by (simp add: demo_job_def)
  from previous_epoch_and_window [OF p a n] r
  have "epochWindow demo_job 1 =
          (time_Unix (epochTimeSeconds demo_job + 1 * epochPeriodSeconds demo_job),
           time_Unix (epochTimeSeconds demo_job + (1 + 1) * epochPeriodSeconds demo_job))
        \<and> instant (fst (epochWindow demo_job 1))
            = (sint (epochTimeSeconds demo_job) + sint (1 :: int64) * sint (epochPeriodSeconds demo_job)) * 1000000000
        \<and> instant (snd (epochWindow demo_job 1))
            = (sint (epochTimeSeconds demo_job) + (sint (1 :: int64) + 1) * sint (epochPeriodSeconds demo_job)) * 1000000000"
    by blast
  then have w: "epochWindow demo_job 1 = (time_Unix 3600, time_Unix 7200)
        \<and> instant (fst (epochWindow demo_job 1)) = 3600 * 1000000000
        \<and> instant (snd (epochWindow demo_job 1)) = 7200 * 1000000000"
    by (simp add: demo_job_def instant_def time_Unix_def unixToInternal_def)
  from p a n g w show ?thesis by blast
qed

text \<open>With the anchor at 7301 s and \<open>now\<close> at 7300 s the code returns \<open>-1\<close>, the floor
  formula gives \<open>-2\<close>. With period 3600 s, anchor 0 and epoch 2562047770755327 the window
  starts at 9223371974719177200 s and \<open>Add\<close> saturates: it ends at 9223371974719179007 s,
  not at 9223371974719180800 s.\<close>

theorem previous_epoch_and_window_counterexample:
  "getPreviousEpoch demo_job_future (time_Unix 7300) = Inr (- 1)
   \<and> sint (- 1 :: int64)
       \<noteq> (sint (Unix (time_Unix 7300)) - sint (epochTimeSeconds demo_job_future))
            div sint (epochPeriodSeconds demo_job_future) - 1
   \<and> sint (Unix (snd (epochWindow demo_job 2562047770755327))) = 9223371974719179007
   \<and> instant (snd (epochWindow demo_job 2562047770755327))
       \<noteq> (sint (epochTimeSeconds demo_job)
            + (sint (2562047770755327 :: int64) + 1) * sint (epochPeriodSeconds demo_job)) * 1000000000"
  by (simp add: mirror_simps demo_job_future_def instant_def)

text \<open>
  C7, as the code has it. For a period of 1 to 9223372036 seconds, an anchor not before
  \<open>-2^62\<close> s and an instant \<open>now\<close> not before the anchor and before \<open>2^62\<close> s: the window
  of the previous epoch is not empty, ends at or before \<open>now\<close>, does not contain \<open>now\<close>,
  and its end is the start of the window of the next epoch.
\<close>

theorem previous_window_closed:
  assumes p: "0 < sint (epochPeriodSeconds c)" "sint (epochPeriodSeconds c) \<le> 9223372036"
    and a: "- (2 ^ 62) \<le> sint (epochTimeSeconds c)"
    and n: "sint (epochTimeSeconds c) \<le> sint (Unix now)" "sint (Unix now) < 2 ^ 62"
  shows "\<exists>e. getPreviousEpoch c now = Inr e
            \<and> instant (fst (epochWindow c e)) < instant (snd (epochWindow c e))
            \<and> instant (snd (epochWindow c e)) \<le> instant now
            \<and> \<not> (instant (fst (epochWindow c e)) \<le> instant now
                  \<and> instant now < instant (snd (epochWindow c e)))
            \<and> snd (epochWindow c e) = fst (epochWindow c (e + 1))"
proof -
  let ?n = "sint (Unix now)"
  let ?a = "sint (epochTimeSeconds c)"
  let ?p = "sint (epochPeriodSeconds c)"
  let ?q = "(?n - ?a) div ?p"
  obtain e where e: "getPreviousEpoch c now = Inr e" and se: "sint e = ?q - 1"
    using getPreviousEpoch_value [OF p(1) a n] by blast
  have d0: "0 \<le> ?n - ?a" using n by simp
  have q: "0 \<le> ?q" "?q \<le> ?n - ?a"
    using int_div_le_self [of "?n - ?a" ?p] d0 p by auto
  have qp: "?q * ?p \<le> ?n - ?a"
    using div_mult_mod_eq [of "?n - ?a" ?p] pos_mod_sign [of ?p "?n - ?a"] p by linarith
  have qp0: "0 \<le> ?q * ?p" using q p by simp
  have ep: "sint e * ?p = ?q * ?p - ?p" by (simp add: se algebra_simps)
  have ep1: "(sint e + 1) * ?p = ?q * ?p" by (simp add: se)
  have r1: "- (2 ^ 63) \<le> sint e * ?p" "sint e * ?p < 2 ^ 63"
    using ep qp qp0 p a n by auto
  have r2: "- (2 ^ 63) \<le> ?a + sint e * ?p"
           "?a + (sint e + 1) * ?p \<le> 9223371974719179007"
    using ep ep1 qp qp0 p a n by auto
  note w = epochWindow_value [OF p r1 r2]
  have s: "instant (fst (epochWindow c e)) = (?a + ?q * ?p - ?p) * 1000000000"
    by (simp add: w(2) ep)
  have t: "instant (snd (epochWindow c e)) = (?a + ?q * ?p) * 1000000000"
    by (simp only: w(3) ep1)
  have sn: "sint (sec now) = ?n + 62135596800"
    using a n by (intro sec_of_Unix) auto
  have nn: "?n * 1000000000 \<le> instant now"
    using uint_ge_0 [of "nsec now"] by (simp add: instant_def sn)
  have le: "(?a + ?q * ?p) * 1000000000 \<le> ?n * 1000000000"
    using qp by (intro mult_right_mono) auto
  have lt: "(?a + ?q * ?p - ?p) * 1000000000 < (?a + ?q * ?p) * 1000000000"
    using p by (intro mult_strict_right_mono) auto
  have c1: "instant (fst (epochWindow c e)) < instant (snd (epochWindow c e))" using s t lt by simp
  have c2: "instant (snd (epochWindow c e)) \<le> instant now" using t le nn by linarith
  have c3: "snd (epochWindow c e) = fst (epochWindow c (e + 1))"
    by (simp add: w(1) epochWindow_fst)
  from e c1 c2 c3 show ?thesis by auto
qed

theorem previous_window_closed_witness:
  "0 < sint (epochPeriodSeconds demo_job) \<and> sint (epochPeriodSeconds demo_job) \<le> 9223372036
   \<and> - (2 ^ 62) \<le> sint (epochTimeSeconds demo_job)
   \<and> sint (epochTimeSeconds demo_job) \<le> sint (Unix (time_Unix 7300))
   \<and> sint (Unix (time_Unix 7300)) < 2 ^ 62
   \<and> getPreviousEpoch demo_job (time_Unix 7300) = Inr 1
   \<and> instant (snd (epochWindow demo_job 1)) \<le> instant (time_Unix 7300)
   \<and> snd (epochWindow demo_job 1) = fst (epochWindow demo_job (1 + 1))"
proof -
  have p: "0 < sint (epochPeriodSeconds demo_job)" "sint (epochPeriodSeconds demo_job) \<le> 9223372036"
    by (simp_all add: demo_job_def)
  have a: "- (2 ^ 62) \<le> sint (epochTimeSeconds demo_job)" by (simp add: demo_job_def)
  have n: "sint (epochTimeSeconds demo_job) \<le> sint (Unix (time_Unix 7300))"
          "sint (Unix (time_Unix 7300)) < 2 ^ 62"
    by (simp_all add: demo_job_def Unix_def time_Unix_def)
  have g: "getPreviousEpoch demo_job (time_Unix 7300) = Inr 1" by (simp add: mirror_simps)
  from previous_window_closed [OF p a n] g
  have "instant (snd (epochWindow demo_job 1)) \<le> instant (time_Unix 7300)
        \<and> snd (epochWindow demo_job 1) = fst (epochWindow demo_job (1 + 1))"
    by auto
  with p a n g show ?thesis by blast
qed

text \<open>With the anchor at 7301 s and \<open>now\<close> at 7300 s the window of the previous epoch,
  \<open>[3701, 7301)\<close>, contains \<open>now\<close>.\<close>

theorem previous_window_closed_counterexample:
  "getPreviousEpoch demo_job_future (time_Unix 7300) = Inr (- 1)
   \<and> instant (fst (epochWindow demo_job_future (- 1))) \<le> instant (time_Unix 7300)
   \<and> instant (time_Unix 7300) < instant (snd (epochWindow demo_job_future (- 1)))"
  by (simp add: mirror_simps demo_job_future_def instant_def)

section \<open>Properties of the input updater\<close>

text \<open>The equations that run the updater on the concrete collaborators.\<close>

lemmas updater_simps =
  demo_updater_def demo_update_def demo_container_def demo_parse_def Keys_def
  updateFromDB_def updateFromChain_def UpdateInputs_def

subsection \<open>The loop of the chain tier\<close>

lemma updateFromChain_loop_calls:
  "updateFromChain_loop env ks acc = (Inr outs, cs) \<Longrightarrow> cs = map CallFetchContainerFromIndexer ks"
proof (induction ks arbitrary: acc outs cs)
  case Nil
  then show ?case by simp
next
  case (Cons k ks)
  then show ?case
    by (auto split: sum.splits option.splits prod.splits UnsignedTx.splits)
qed

lemma updateFromChain_loop_append:
  "updateFromChain_loop env (xs @ ys) acc =
     (case updateFromChain_loop env xs acc of
        (Inl err, cs) \<Rightarrow> (Inl err, cs)
      | (Inr outs, cs) \<Rightarrow>
          (case updateFromChain_loop env ys outs of (r, cs2) \<Rightarrow> (r, cs @ cs2)))"
proof (induction xs arbitrary: acc)
  case Nil
  then show ?case by (simp split: prod.splits)
next
  case (Cons k xs)
  show ?case
    by (simp add: Cons.IH split: sum.splits option.splits prod.splits UnsignedTx.splits)
qed

lemma updateFromChain_loop_ids:
  assumes "updateFromChain_loop env ks acc = (Inr outs, cs)"
    and "\<forall>txId unsignedTx outs out.
           TxOutputsFromBaseTx env txId unsignedTx = Inr outs \<and> out \<in> set outs \<longrightarrow> out_id out = txId"
  shows "out_id ` set outs \<subseteq>
           out_id ` set acc \<union> {k \<in> set ks. FetchContainerFromIndexer env k \<noteq> Inr None}"
  using assms(1)
proof (induction ks arbitrary: acc outs cs)
  case Nil
  then show ?case by auto
next
  case (Cons k ks)
  show ?case
  proof (cases "FetchContainerFromIndexer env k")
    case (Inl err)
    with Cons.prems show ?thesis by simp
  next
    case (Inr co)
    show ?thesis
    proof (cases co)
      case None
      with Inr Cons.prems obtain cs' where "updateFromChain_loop env ks acc = (Inr outs, cs')"
        by (auto split: prod.splits)
      from Cons.IH [OF this] show ?thesis by auto
    next
      case (Some container)
      with Inr Cons.prems obtain new cs' b where
        l: "updateFromChain_loop env ks (acc @ new) = (Inr outs, cs')"
        and t: "TxOutputsFromBaseTx env k b = Inr new"
        by (auto split: sum.splits prod.splits UnsignedTx.splits)
      have "out_id ` set new \<subseteq> {k}" using assms(2) t by blast
      moreover have "FetchContainerFromIndexer env k \<noteq> Inr None" using Inr Some by simp
      moreover have "out_id ` set outs \<subseteq> out_id ` set acc \<union> out_id ` set new
                       \<union> {k \<in> set ks. FetchContainerFromIndexer env k \<noteq> Inr None}"
        using Cons.IH [OF l] by (simp add: image_Un)
      ultimately show ?thesis by (simp add: subset_iff) blast
    qed
  qed
qed

subsection \<open>The resolution call\<close>

text \<open>
  C2. \<open>UpdateInputs\<close> consults the cache, then the table with the identifiers the cache
  left, then the indexer with the identifiers the table left, one fetch per identifier.
  When the three tiers have run without a hard error, it returns the error that lists the
  identifiers still unresolved if there are any, and success if there are none.
\<close>

theorem UpdateInputs_outcome:
  assumes cache: "UpdateInputsFromCache env h inputs = (h0, notUpdated0)"
    and store: "updateFromDB env h0 notUpdated0 = (None, h1, notUpdated1, cs1)"
    and chain: "updateFromChain env h1 notUpdated1 = (None, h2, notUpdated2, cs2)"
  shows "UpdateInputs env h inputs =
           (if notUpdated2 = [] then None else Some (UnableToFetchTransactions (Keys notUpdated2)),
            h2, CallUpdateInputsFromCache # cs1 @ cs2)
       \<and> cs1 = [CallFetchXChainTxOutputs (Keys notUpdated0)]
       \<and> cs2 = map CallFetchContainerFromIndexer (Keys notUpdated1)"
proof -
  have r: "UpdateInputs env h inputs =
           (if notUpdated2 = [] then None else Some (UnableToFetchTransactions (Keys notUpdated2)),
            h2, CallUpdateInputsFromCache # cs1 @ cs2)"
    by (simp add: UpdateInputs_def cache store chain)
  have c1: "cs1 = [CallFetchXChainTxOutputs (Keys notUpdated0)]"
    using store by (auto simp: updateFromDB_def Let_def split: sum.splits prod.splits)
  obtain fetched where "updateFromChain_loop env (Keys notUpdated1) [] = (Inr fetched, cs2)"
    using chain by (auto simp: updateFromChain_def split: sum.splits prod.splits)
  then have c2: "cs2 = map CallFetchContainerFromIndexer (Keys notUpdated1)"
    by (rule updateFromChain_loop_calls)
  from r c1 c2 show ?thesis by blast
qed

theorem UpdateInputs_outcome_witness:
  "UpdateInputs demo_updater [] [''c'', ''s'', ''b'', ''q'', ''i'']
     = (Some (UnableToFetchTransactions [''q'']), [''c'', ''s'', ''b'', ''i''],
        [CallUpdateInputsFromCache, CallFetchXChainTxOutputs [''s'', ''b'', ''q'', ''i''],
         CallFetchContainerFromIndexer ''b'', CallFetchContainerFromIndexer ''q'',
         CallFetchContainerFromIndexer ''i''])
   \<and> UpdateInputs demo_updater [] [''c'', ''s'', ''b'', ''i'']
     = (None, [''c'', ''s'', ''b'', ''i''],
        [CallUpdateInputsFromCache, CallFetchXChainTxOutputs [''s'', ''b'', ''i''],
         CallFetchContainerFromIndexer ''b'', CallFetchContainerFromIndexer ''i''])"
proof -
  let ?h0 = "[''c'']"
  have cache1: "UpdateInputsFromCache demo_updater [] [''c'', ''s'', ''b'', ''q'', ''i'']
                  = (?h0, [(''s'', [''s'']), (''b'', [''b'']), (''q'', [''q'']), (''i'', [''i''])])"
    by (simp add: demo_updater_def)
  have store1: "updateFromDB demo_updater ?h0 [(''s'', [''s'']), (''b'', [''b'']), (''q'', [''q'']), (''i'', [''i''])]
                  = (None, [''c'', ''s''], [(''b'', [''b'']), (''q'', [''q'']), (''i'', [''i''])],
                     [CallFetchXChainTxOutputs [''s'', ''b'', ''q'', ''i'']])"
    by (simp add: updater_simps)
  have chain1: "updateFromChain demo_updater [''c'', ''s''] [(''b'', [''b'']), (''q'', [''q'']), (''i'', [''i''])]
                  = (None, [''c'', ''s'', ''b'', ''i''], [(''q'', [''q''])],
                     [CallFetchContainerFromIndexer ''b'', CallFetchContainerFromIndexer ''q'',
                      CallFetchContainerFromIndexer ''i''])"
    by (simp add: updater_simps)
  have cache2: "UpdateInputsFromCache demo_updater [] [''c'', ''s'', ''b'', ''i'']
                  = (?h0, [(''s'', [''s'']), (''b'', [''b'']), (''i'', [''i''])])"
    by (simp add: demo_updater_def)
  have store2: "updateFromDB demo_updater ?h0 [(''s'', [''s'']), (''b'', [''b'']), (''i'', [''i''])]
                  = (None, [''c'', ''s''], [(''b'', [''b'']), (''i'', [''i''])],
                     [CallFetchXChainTxOutputs [''s'', ''b'', ''i'']])"
    by (simp add: updater_simps)
  have chain2: "updateFromChain demo_updater [''c'', ''s''] [(''b'', [''b'']), (''i'', [''i''])]
                  = (None, [''c'', ''s'', ''b'', ''i''], [],
                     [CallFetchContainerFromIndexer ''b'', CallFetchContainerFromIndexer ''i''])"
    by (simp add: updater_simps)
  from UpdateInputs_outcome [OF cache1 store1 chain1] UpdateInputs_outcome [OF cache2 store2 chain2]
  show ?thesis by (simp add: Keys_def)
qed

text \<open>
  C3. The chain tier reaches the identifier \<open>txId\<close> after the identifiers \<open>pre\<close> were
  fetched without a hard error. If the indexer returns a nil container for it, the loop
  goes on with the identifiers after it and the outputs fetched so far: no error, no
  output; and when the tier ends without error the identifier is still in the map,
  provided the helpers of package \<open>shared\<close> resolve only what they are supplied. If the
  container is found and its unsigned transaction is neither a base nor an import
  transaction, the tier, and the resolution call that reached it, return the error that
  names the container and the unsupported type.
\<close>

theorem chain_tier_nil_and_unsupported:
  assumes keys: "Keys notUpdated = pre @ txId # post"
    and reach: "updateFromChain_loop env pre [] = (Inr outs, cs)"
  shows
   "(FetchContainerFromIndexer env txId = Inr None \<longrightarrow>
       updateFromChain_loop env (Keys notUpdated) []
         = (case updateFromChain_loop env post outs of
              (r, cs2) \<Rightarrow> (r, cs @ CallFetchContainerFromIndexer txId # cs2))
       \<and> (resolves_only_supplied env out_id \<and> fst (updateFromChain env h notUpdated) = None
            \<longrightarrow> txId \<in> set (Keys (fst (snd (snd (updateFromChain env h notUpdated)))))))
    \<and> (\<forall>container tx T.
          FetchContainerFromIndexer env txId = Inr (Some container)
          \<and> ParseGenesisTx env (container_Bytes container) = Inr tx \<and> Unsigned tx = OtherTx T
          \<longrightarrow> updateFromChain env h notUpdated
                = (Some (UnsupportedType (ID_String env (container_ID container)) T), h, notUpdated,
                   cs @ [CallFetchContainerFromIndexer txId])
              \<and> (\<forall>h0 inputs hc notUpdated0 cs1.
                    UpdateInputsFromCache env h0 inputs = (hc, notUpdated0)
                    \<and> updateFromDB env hc notUpdated0 = (None, h, notUpdated, cs1)
                    \<longrightarrow> UpdateInputs env h0 inputs
                          = (Some (UnsupportedType (ID_String env (container_ID container)) T), h,
                             CallUpdateInputsFromCache # cs1 @ cs @ [CallFetchContainerFromIndexer txId])))"
proof -
  have split: "updateFromChain_loop env (Keys notUpdated) []
                 = (case updateFromChain_loop env (txId # post) outs of (r, cs2) \<Rightarrow> (r, cs @ cs2))"
    by (simp only: keys updateFromChain_loop_append reach) simp
  have nil1: "updateFromChain_loop env (Keys notUpdated) []
         = (case updateFromChain_loop env post outs of
              (r, cs2) \<Rightarrow> (r, cs @ CallFetchContainerFromIndexer txId # cs2))"
    if "FetchContainerFromIndexer env txId = Inr None"
    unfolding split using that by (simp split: prod.splits)
  have nil2: "txId \<in> set (Keys (fst (snd (snd (updateFromChain env h notUpdated)))))"
    if n: "FetchContainerFromIndexer env txId = Inr None"
      and c: "resolves_only_supplied env out_id"
      and ok: "fst (updateFromChain env h notUpdated) = None"
  proof -
    obtain fetched cs3 where l: "updateFromChain_loop env (Keys notUpdated) [] = (Inr fetched, cs3)"
      using ok by (auto simp: updateFromChain_def split: sum.splits prod.splits)
    have u: "updateFromChain env h notUpdated =
               (case UpdateInputsWithOutputs env h notUpdated fetched of (r, h1, n1) \<Rightarrow> (r, h1, n1, cs3))"
      by (simp add: updateFromChain_def l)
    have c2: "\<forall>txId unsignedTx outs out.
           TxOutputsFromBaseTx env txId unsignedTx = Inr outs \<and> out \<in> set outs \<longrightarrow> out_id out = txId"
      using c unfolding resolves_only_supplied_def by blast
    have "out_id ` set fetched \<subseteq>
            out_id ` set [] \<union> {k \<in> set (Keys notUpdated). FetchContainerFromIndexer env k \<noteq> Inr None}"
      by (rule updateFromChain_loop_ids [OF l c2])
    then have "txId \<notin> out_id ` set fetched" using n by auto
    moreover have "txId \<in> set (Keys notUpdated)" using keys by simp
    ultimately have "txId \<in> set (Keys (snd (snd (UpdateInputsWithOutputs env h notUpdated fetched))))"
      using c unfolding resolves_only_supplied_def by blast
    then show ?thesis
      by (cases "UpdateInputsWithOutputs env h notUpdated fetched") (simp add: u)
  qed
  have bad1: "updateFromChain env h notUpdated
                = (Some (UnsupportedType (ID_String env (container_ID container)) T), h, notUpdated,
                   cs @ [CallFetchContainerFromIndexer txId])"
    if "FetchContainerFromIndexer env txId = Inr (Some container)"
       "ParseGenesisTx env (container_Bytes container) = Inr tx" "Unsigned tx = OtherTx T"
    for container tx T
  proof -
    have "updateFromChain_loop env (Keys notUpdated) []
            = (Inl (UnsupportedType (ID_String env (container_ID container)) T),
               cs @ [CallFetchContainerFromIndexer txId])"
      unfolding split using that by simp
    then show ?thesis by (simp add: updateFromChain_def)
  qed
  have bad2: "UpdateInputs env h0 inputs
                = (Some (UnsupportedType (ID_String env (container_ID container)) T), h,
                   CallUpdateInputsFromCache # cs1 @ cs @ [CallFetchContainerFromIndexer txId])"
    if "FetchContainerFromIndexer env txId = Inr (Some container)"
       "ParseGenesisTx env (container_Bytes container) = Inr tx" "Unsigned tx = OtherTx T"
       "UpdateInputsFromCache env h0 inputs = (hc, notUpdated0)"
       "updateFromDB env hc notUpdated0 = (None, h, notUpdated, cs1)"
    for container tx T h0 inputs hc notUpdated0 cs1
    using bad1 [OF that(1,2,3)] that(4,5) by (simp add: UpdateInputs_def)
  show ?thesis using nil1 nil2 bad1 bad2 by blast
qed

theorem chain_tier_nil_and_unsupported_witness:
  "resolves_only_supplied demo_updater fst
   \<and> FetchContainerFromIndexer demo_updater ''q'' = Inr None
   \<and> fst (updateFromChain demo_updater [''c'', ''s''] [(''b'', [''b'']), (''q'', [''q'']), (''i'', [''i''])]) = None
   \<and> ''q'' \<in> set (Keys (fst (snd (snd (updateFromChain demo_updater [''c'', ''s'']
                                          [(''b'', [''b'']), (''q'', [''q'']), (''i'', [''i''])])))))
   \<and> UpdateInputs demo_updater [] [''c'', ''s'', ''b'', ''q'', ''x'', ''i'']
       = (Some (UnsupportedType ''id-x'' ''*txs.ExportTx''), [''c'', ''s''],
          [CallUpdateInputsFromCache, CallFetchXChainTxOutputs [''s'', ''b'', ''q'', ''x'', ''i''],
           CallFetchContainerFromIndexer ''b'', CallFetchContainerFromIndexer ''q'',
           CallFetchContainerFromIndexer ''x''])"
proof -
  let ?A = "[(''b'', [''b'']), (''q'', [''q'']), (''i'', [''i''])] :: string notUpdated"
  let ?B = "[(''b'', [''b'']), (''q'', [''q'']), (''x'', [''x'']), (''i'', [''i''])] :: string notUpdated"
  let ?h = "[''c'', ''s'']"
  have contract: "resolves_only_supplied demo_updater fst"
    unfolding resolves_only_supplied_def by (auto simp: demo_updater_def demo_update_def Keys_def)
  have nil: "FetchContainerFromIndexer demo_updater ''q'' = Inr None"
    by (simp add: demo_updater_def demo_container_def)
  have ok: "fst (updateFromChain demo_updater ?h ?A) = None"
    by (simp add: updater_simps)
  have keysA: "Keys ?A = [''b''] @ ''q'' # [''i'']" by (simp add: Keys_def)
  obtain outsA csA where reachA: "updateFromChain_loop demo_updater [''b''] [] = (Inr outsA, csA)"
    by (simp add: updater_simps)
  from chain_tier_nil_and_unsupported [OF keysA reachA, of fst ?h] nil contract ok
  have stays: "''q'' \<in> set (Keys (fst (snd (snd (updateFromChain demo_updater ?h ?A)))))"
    by blast
  have keysB: "Keys ?B = [''b'', ''q''] @ ''x'' # [''i'']" by (simp add: Keys_def)
  have reachB: "updateFromChain_loop demo_updater [''b'', ''q''] []
                  = (Inr [(''b'', ''addr-b'')],
                     [CallFetchContainerFromIndexer ''b'', CallFetchContainerFromIndexer ''q''])"
    by (simp add: updater_simps)
  have found: "FetchContainerFromIndexer demo_updater ''x''
                 = Inr (Some \<lparr> container_ID = [3], container_Bytes = [3] \<rparr>)"
    by (simp add: demo_updater_def demo_container_def)
  have parsed: "ParseGenesisTx demo_updater (container_Bytes \<lparr> container_ID = [3], container_Bytes = [3] \<rparr>)
                  = Inr \<lparr> Unsigned = OtherTx ''*txs.ExportTx'' \<rparr>"
    by (simp add: demo_updater_def demo_parse_def)
  have other: "Unsigned \<lparr> Unsigned = OtherTx ''*txs.ExportTx'' \<rparr> = (OtherTx ''*txs.ExportTx'' :: string UnsignedTx)"
    by simp
  have cache: "UpdateInputsFromCache demo_updater [] [''c'', ''s'', ''b'', ''q'', ''x'', ''i'']
                 = ([''c''], (''s'', [''s'']) # ?B)"
    by (simp add: demo_updater_def)
  have store: "updateFromDB demo_updater [''c''] ((''s'', [''s'']) # ?B)
                 = (None, ?h, ?B, [CallFetchXChainTxOutputs [''s'', ''b'', ''q'', ''x'', ''i'']])"
    by (simp add: updater_simps)
  from chain_tier_nil_and_unsupported [OF keysB reachB, of fst ?h] found parsed other cache store
  have "UpdateInputs demo_updater [] [''c'', ''s'', ''b'', ''q'', ''x'', ''i'']
       = (Some (UnsupportedType (ID_String demo_updater (container_ID \<lparr> container_ID = [3], container_Bytes = [3] \<rparr>))
                  ''*txs.ExportTx''), ?h,
          CallUpdateInputsFromCache # [CallFetchXChainTxOutputs [''s'', ''b'', ''q'', ''x'', ''i'']]
            @ [CallFetchContainerFromIndexer ''b'', CallFetchContainerFromIndexer ''q'']
            @ [CallFetchContainerFromIndexer ''x''])"
    by blast
  then have bad: "UpdateInputs demo_updater [] [''c'', ''s'', ''b'', ''q'', ''x'', ''i'']
       = (Some (UnsupportedType ''id-x'' ''*txs.ExportTx''), [''c'', ''s''],
          [CallUpdateInputsFromCache, CallFetchXChainTxOutputs [''s'', ''b'', ''q'', ''x'', ''i''],
           CallFetchContainerFromIndexer ''b'', CallFetchContainerFromIndexer ''q'',
           CallFetchContainerFromIndexer ''x''])"
    by (simp add: demo_updater_def)
  from contract nil ok stays bad show ?thesis by blast
qed

end
